theory Spec2Isabelle
  imports Complex_Main "HOL-Library.AList"
begin

section \<open>Text and number helpers shared by the three scrapers\<close>

text \<open>
  Python strings are modelled as \<open>string\<close>, whose characters are the 256 code points
  of Latin-1; the code points above U+00FF are not represented. \<open>isspace\<close> is the set of
  these characters that \<^verbatim>\<open>str.strip()\<close> removes (the ASCII white space, the
  separators U+001C to U+001F, U+0085 and U+00A0) and \<open>isdigit\<close> is what \<^verbatim>\<open>\d\<close>
  matches among them.
\<close>

datatype transport_error = Timeout | ConnectionFailed | BadStatus

datatype exn =
    RequestError transport_error
  | ParserError
  | ValueError
  | TypeError
  | KeyError
  | IndexError
  | IntegrityError
  | DatabaseError

definition isspace :: "char \<Rightarrow> bool" where
  "isspace c =
     (let n = (of_char c :: nat)
      in (9 \<le> n \<and> n \<le> 13) \<or> (28 \<le> n \<and> n \<le> 32) \<or> n = 133 \<or> n = 160)"

definition isdigit :: "char \<Rightarrow> bool" where
  "isdigit c = (let n = (of_char c :: nat) in 48 \<le> n \<and> n \<le> 57)"

definition strip :: "string \<Rightarrow> string" where
  "strip s = rev (dropWhile isspace (rev (dropWhile isspace s)))"

definition digit_val :: "char \<Rightarrow> nat" where
  "digit_val c = of_char c - 48"

definition digits_value :: "string \<Rightarrow> nat" where
  "digits_value ds = foldl (\<lambda>acc c. 10 * acc + digit_val c) 0 ds"

text \<open>
  \<^verbatim>\<open>float(cleaned)\<close> on the strings \<open>_parse_value\<close> passes to it, which hold digits and
  dots only: digits, at most one dot, at least one digit; anything else raises
  \<^verbatim>\<open>ValueError\<close>. The value is the exact decimal value, before rounding to binary64 (so
  there is no infinity for a very long string of digits).
\<close>

definition py_float :: "string \<Rightarrow> exn + rat" where
  "py_float s =
     (let ip = takeWhile isdigit s in
      case dropWhile isdigit s of
        [] \<Rightarrow> if ip = [] then Inl ValueError else Inr (of_nat (digits_value ip))
      | c # fp \<Rightarrow>
          if c = CHR ''.'' \<and> list_all isdigit fp \<and> (ip \<noteq> [] \<or> fp \<noteq> [])
          then Inr (of_nat (digits_value ip) + of_nat (digits_value fp) / 10 ^ length fp)
          else Inl ValueError)"

text \<open>
  \<^verbatim>\<open>int(s)\<close> in base 10: surrounding whitespace, an optional sign, then digits with
  single underscores between them. The value is unbounded: the limit that newer
  interpreters put on the number of digits of the string (4300 unless configured), beyond
  which \<^verbatim>\<open>int\<close> raises \<^verbatim>\<open>ValueError\<close>, is left out.
\<close>

fun digits_ok :: "string \<Rightarrow> bool" where
  "digits_ok [] = False"
| "digits_ok [c] = isdigit c"
| "digits_ok (c # d # cs) =
     (isdigit c \<and> (if d = CHR ''_'' then cs \<noteq> [] \<and> digits_ok cs else digits_ok (d # cs)))"

definition py_int :: "string \<Rightarrow> exn + int" where
  "py_int s =
     (let t = strip s;
          neg = (t \<noteq> [] \<and> hd t = CHR ''-'');
          body = (if t \<noteq> [] \<and> (hd t = CHR ''-'' \<or> hd t = CHR ''+'') then tl t else t)
      in if digits_ok body
         then Inr ((if neg then - 1 else 1) * int (digits_value (filter isdigit body)))
         else Inl ValueError)"

text \<open>
  \<^verbatim>\<open>_parse_value\<close> and \<^verbatim>\<open>_parse_int\<close> (the same text in scraper.py, threaded_scraper.py
  and async_scraper.py). \<open>Inl\<close> is an exception leaving the helper, \<open>Inr None\<close> is the
  value \<^verbatim>\<open>None\<close>.
\<close>

definition parse_value :: "string \<Rightarrow> exn + rat option" where
  "parse_value text =
     (if text = [] \<or> strip text = [] then Inr None
      else let cleaned = filter (\<lambda>c. isdigit c \<or> c = CHR ''.'') text in
        if cleaned = [] then Inr None
        else case py_float cleaned of
               Inr v \<Rightarrow> Inr (Some v)
             | Inl e \<Rightarrow> if e = ValueError \<or> e = TypeError then Inr None else Inl e)"

definition parse_int :: "string \<Rightarrow> exn + int option" where
  "parse_int text =
     (if text = [] \<or> strip text = [] then Inr None
      else let cleaned = filter isdigit text in
        if cleaned = [] then Inr None
        else case py_int cleaned of
               Inr v \<Rightarrow> Inr (Some v)
             | Inl e \<Rightarrow> if e = ValueError \<or> e = TypeError then Inr None else Inl e)"


section \<open>The report and its parser\<close>

text \<open>
  BeautifulSoup is a library outside the repository. Its part is a parameter of the
  model: a function from the response body to what the selectors of \<^verbatim>\<open>parse_report\<close>
  find in it, \<open>None\<close> when the library raises. A cell carries the three renderings that
  the code asks for.
\<close>

record cell =
  get_text :: string
  get_text_strip :: string
  get_text_sep_strip :: string

record row =
  row_text :: string
  cells :: "cell list"

record soup =
  info_rows :: "row list"
  sales_table :: "row list option"
  grade_table :: "row list option"
  creditor_table :: "row list option"

type_synonym dict = "(string \<times> string) list"

record sales =
  total_bales :: "int option"
  total_mass_kg :: "rat option"
  total_value_usd :: "rat option"
  average_price_usd :: "rat option"

record grade_item =
  grade_name :: string
  mass_kg :: "rat option"
  value_usd :: "rat option"
  grade_average_price_usd :: "rat option"

record creditor_item =
  creditor_name :: string
  total_owed_usd :: "rat option"
  total_paid_usd :: "rat option"
  recovery_percentage :: "rat option"
  item_notes :: string

record report =
  grower_info :: dict
  must_know_info :: dict
  sales_summary :: "sales option"
  grade_analysis :: "grade_item list"
  creditor_recoveries :: "creditor_item list"

definition dict_get :: "dict \<Rightarrow> string \<Rightarrow> string option" where
  "dict_get d k = map_of d k"

definition dict_get_default :: "dict \<Rightarrow> string \<Rightarrow> string \<Rightarrow> string" where
  "dict_get_default d k dflt = (case map_of d k of None \<Rightarrow> dflt | Some v \<Rightarrow> v)"

fun contains :: "string \<Rightarrow> string \<Rightarrow> bool" where
  "contains sub [] = (sub = [])"
| "contains sub (c # cs) = (take (length sub) (c # cs) = sub \<or> contains sub cs)"

definition replace_chr :: "char \<Rightarrow> string \<Rightarrow> string \<Rightarrow> string" where
  "replace_chr c new s = concat (map (\<lambda>x. if x = c then new else [x]) s)"

text \<open>\<^verbatim>\<open>str.lower()\<close>, one character at a time: the capital letters of Latin-1.\<close>

definition upper_letters :: string where
  "upper_letters =
     ''ABCDEFGHIJKLMNOPQRSTUVWXYZ'' @
     [CHR 0xC0, CHR 0xC1, CHR 0xC2, CHR 0xC3, CHR 0xC4, CHR 0xC5, CHR 0xC6, CHR 0xC7,
      CHR 0xC8, CHR 0xC9, CHR 0xCA, CHR 0xCB, CHR 0xCC, CHR 0xCD, CHR 0xCE, CHR 0xCF,
      CHR 0xD0, CHR 0xD1, CHR 0xD2, CHR 0xD3, CHR 0xD4, CHR 0xD5, CHR 0xD6, CHR 0xD8,
      CHR 0xD9, CHR 0xDA, CHR 0xDB, CHR 0xDC, CHR 0xDD, CHR 0xDE]"

definition lower_letters :: string where
  "lower_letters =
     ''abcdefghijklmnopqrstuvwxyz'' @
     [CHR 0xE0, CHR 0xE1, CHR 0xE2, CHR 0xE3, CHR 0xE4, CHR 0xE5, CHR 0xE6, CHR 0xE7,
      CHR 0xE8, CHR 0xE9, CHR 0xEA, CHR 0xEB, CHR 0xEC, CHR 0xED, CHR 0xEE, CHR 0xEF,
      CHR 0xF0, CHR 0xF1, CHR 0xF2, CHR 0xF3, CHR 0xF4, CHR 0xF5, CHR 0xF6, CHR 0xF8,
      CHR 0xF9, CHR 0xFA, CHR 0xFB, CHR 0xFC, CHR 0xFD, CHR 0xFE]"

definition lower_chr :: "char \<Rightarrow> char" where
  "lower_chr c =
     (case map_of (zip upper_letters lower_letters) c of
        None \<Rightarrow> c
      | Some l \<Rightarrow> l)"

definition clean_text :: "string \<Rightarrow> string" where
  "clean_text t = (if t = [] then [] else strip (replace_chr (CHR 0x0D) [] (replace_chr (CHR 0x0A) '' '' t)))"

definition sum_bind :: "exn + 'a \<Rightarrow> ('a \<Rightarrow> exn + 'b) \<Rightarrow> exn + 'b" where
  "sum_bind m f = (case m of Inl e \<Rightarrow> Inl e | Inr v \<Rightarrow> f v)"

fun sum_map_filter :: "('a \<Rightarrow> exn + 'b option) \<Rightarrow> 'a list \<Rightarrow> exn + 'b list" where
  "sum_map_filter f [] = Inr []"
| "sum_map_filter f (x # xs) =
     sum_bind (f x) (\<lambda>y. sum_bind (sum_map_filter f xs)
       (\<lambda>ys. Inr (case y of None \<Rightarrow> ys | Some v \<Rightarrow> v # ys)))"

definition key_sync :: "string \<Rightarrow> string" where
  "key_sync label =
     replace_chr (CHR '')'') [] (replace_chr (CHR ''('') [] (replace_chr (CHR '' '') ''_'' (map lower_chr label)))"

definition key_async :: "string \<Rightarrow> string" where
  "key_async label = replace_chr (CHR '':'') [] (key_sync label)"

text \<open>
  The loop over \<^verbatim>\<open>info_rows\<close>: the state is the current section (\<open>True\<close> once the
  'Must know information' header was seen) and the two dictionaries.
\<close>

fun parse_info_rows :: "(string \<Rightarrow> string) \<Rightarrow> row list \<Rightarrow> bool \<times> dict \<times> dict \<Rightarrow> bool \<times> dict \<times> dict" where
  "parse_info_rows key_of [] acc = acc"
| "parse_info_rows key_of (r # rs) (must_know, gi, mk) =
     (if cells r = [] \<or> length (cells r) < 2
      then parse_info_rows key_of rs
             (if contains ''Must know information'' (row_text r) then True else must_know, gi, mk)
      else let label = clean_text (get_text (cells r ! 0));
               val = clean_text (get_text_sep_strip (cells r ! 1))
           in if label \<noteq> []
              then if must_know
                   then parse_info_rows key_of rs (must_know, gi, AList.update (key_of label) val mk)
                   else parse_info_rows key_of rs (must_know, AList.update (key_of label) val gi, mk)
              else parse_info_rows key_of rs (must_know, gi, mk))"

definition parse_sales_summary :: "soup \<Rightarrow> exn + sales option" where
  "parse_sales_summary sp =
     (case sales_table sp of
        None \<Rightarrow> Inr None
      | Some rows \<Rightarrow>
          if length rows > 1 \<and> length (cells (rows ! 1)) \<ge> 4
          then let cs = cells (rows ! 1) in
            sum_bind (parse_int (get_text_strip (cs ! 0))) (\<lambda>b.
            sum_bind (parse_value (get_text (cs ! 1))) (\<lambda>m.
            sum_bind (parse_value (get_text (cs ! 2))) (\<lambda>v.
            sum_bind (parse_value (get_text (cs ! 3))) (\<lambda>a.
              Inr (Some \<lparr>total_bales = b, total_mass_kg = m, total_value_usd = v,
                         average_price_usd = a\<rparr>)))))
          else Inr None)"

definition grade_row :: "row \<Rightarrow> exn + grade_item option" where
  "grade_row r =
     (let cs = cells r in
      if length cs \<ge> 4
      then sum_bind (parse_value (get_text (cs ! 1))) (\<lambda>m.
           sum_bind (parse_value (get_text (cs ! 2))) (\<lambda>v.
           sum_bind (parse_value (get_text (cs ! 3))) (\<lambda>a.
             Inr (Some \<lparr>grade_name = clean_text (get_text (cs ! 0)), mass_kg = m, value_usd = v,
                        grade_average_price_usd = a\<rparr>))))
      else Inr None)"

definition parse_grade_analysis :: "soup \<Rightarrow> exn + grade_item list" where
  "parse_grade_analysis sp =
     (case grade_table sp of None \<Rightarrow> Inr [] | Some rows \<Rightarrow> sum_map_filter grade_row (drop 1 rows))"

definition creditor_row :: "row \<Rightarrow> exn + creditor_item option" where
  "creditor_row r =
     (let cs = cells r in
      if length cs \<ge> 5
      then let recovery_text = get_text_strip (cs ! 4) in
           sum_bind (parse_value (get_text (cs ! 2))) (\<lambda>ow.
           sum_bind (parse_value (get_text (cs ! 3))) (\<lambda>pd.
           sum_bind (parse_value recovery_text) (\<lambda>rp.
           sum_bind (parse_value recovery_text) (\<lambda>rp2.
             Inr (Some \<lparr>creditor_name = clean_text (get_text (cs ! 1)), total_owed_usd = ow,
                        total_paid_usd = pd, recovery_percentage = rp,
                        item_notes = (if rp2 = None \<or> rp2 = Some 0 then recovery_text else [])\<rparr>)))))
      else Inr None)"

definition parse_creditor_recoveries :: "soup \<Rightarrow> exn + creditor_item list" where
  "parse_creditor_recoveries sp =
     (case creditor_table sp of None \<Rightarrow> Inr [] | Some rows \<Rightarrow> sum_map_filter creditor_row (drop 1 rows))"

definition build_report :: "(string \<Rightarrow> string) \<Rightarrow> soup \<Rightarrow> exn + report" where
  "build_report key_of sp =
     (case parse_info_rows key_of (info_rows sp) (False, [], []) of (_, gi, mk) \<Rightarrow>
        sum_bind (parse_sales_summary sp) (\<lambda>ss.
        sum_bind (parse_grade_analysis sp) (\<lambda>ga.
        sum_bind (parse_creditor_recoveries sp) (\<lambda>cr.
          Inr \<lparr>grower_info = gi, must_know_info = mk, sales_summary = ss,
               grade_analysis = ga, creditor_recoveries = cr\<rparr>))))"

text \<open>
  \<^verbatim>\<open>AsyncTIMBScraper.parse_report\<close>: \<open>None\<close> for an empty body and for the portal's
  "no record" page; every exception of the parsing is caught and gives \<open>None\<close> too.
\<close>

definition parse_report :: "(string \<Rightarrow> soup option) \<Rightarrow> string \<Rightarrow> report option" where
  "parse_report bs html_content =
     (if html_content = [] \<or> contains ''Please specify the grower number'' html_content then None
      else case bs html_content of
             None \<Rightarrow> None
           | Some sp \<Rightarrow> (case build_report key_async sp of Inl e \<Rightarrow> None | Inr data \<Rightarrow> Some data))"

text \<open>
  \<^verbatim>\<open>parse_report\<close> of \<^verbatim>\<open>TIMBScraper\<close> and \<^verbatim>\<open>ThreadedTIMBScraper\<close>: no \<^verbatim>\<open>try\<close>, so an
  exception of the parsing leaves the function.
\<close>

definition parse_report_sync :: "(string \<Rightarrow> soup option) \<Rightarrow> string \<Rightarrow> exn + report option" where
  "parse_report_sync bs html_content =
     (if contains ''Please specify the grower number'' html_content then Inr None
      else case bs html_content of
             None \<Rightarrow> Inl ParserError
           | Some sp \<Rightarrow> sum_bind (build_report key_sync sp) (\<lambda>data. Inr (Some data)))"


section \<open>The portal as seen by the scrapers\<close>

text \<open>
  What a lookup posts (\<^verbatim>\<open>'season': str(season)\<close> is kept as the integer it renders) and
  what comes back: a body, or a failure of the transport (connection error, timeout or an
  error status raised by \<^verbatim>\<open>raise_for_status\<close>). The portal is a fixture: its answer is a
  function of what is posted and of the number of the attempt within the logical lookup
  (0 for the first). \<open>login_page\<close> answers the login form.
\<close>

datatype response = Failed transport_error | Body string

record lookup_post =
  deleteprefix :: string
  deletegnumber :: string
  deletesuffix :: string
  season_field :: int

record world =
  bs :: "string \<Rightarrow> soup option"
  login_page :: "string \<Rightarrow> string \<Rightarrow> response"
  portal :: "lookup_post \<Rightarrow> nat \<Rightarrow> response"

section \<open>async\_scraper.py\<close>

record ScrapingConfig =
  max_concurrent_requests :: nat
  request_delay :: rat
  timeout :: nat
  max_retries :: nat
  retry_delay :: rat

record stats =
  requests_made :: nat
  successful_requests :: nat
  failed_requests :: nat
  retries :: nat
  growers_discovered :: nat

record GrowerDiscoveryResult =
  grower_id :: string
  first_season :: int
  first_report_data :: report

text \<open>
  The scraper object. \<open>login_posts\<close> and \<open>posts\<close> record what the session has posted, in
  order; the delays (\<^verbatim>\<open>asyncio.sleep\<close>) are not modelled.
\<close>

record AsyncTIMBScraper =
  username :: string
  password :: string
  config :: ScrapingConfig
  is_logged_in :: bool
  start_year :: int
  current_year :: int
  stats :: stats
  login_posts :: "(string \<times> string) list"
  posts :: "lookup_post list"

definition ScrapingConfig_default :: ScrapingConfig where
  "ScrapingConfig_default =
     \<lparr>max_concurrent_requests = 8, request_delay = 3 / 10, timeout = 30, max_retries = 3,
      retry_delay = 1\<rparr>"

definition AsyncTIMBScraper_init :: "string \<Rightarrow> string \<Rightarrow> ScrapingConfig \<Rightarrow> AsyncTIMBScraper" where
  "AsyncTIMBScraper_init user pass cfg =
     \<lparr>username = user, password = pass, config = cfg, is_logged_in = False,
      start_year = 2018, current_year = 2025,
      stats = \<lparr>requests_made = 0, successful_requests = 0, failed_requests = 0, retries = 0,
               growers_discovered = 0\<rparr>,
      login_posts = [], posts = []\<rparr>"

definition inc_requests_made :: "AsyncTIMBScraper \<Rightarrow> AsyncTIMBScraper" where
  "inc_requests_made sc = sc\<lparr>stats := (stats sc)\<lparr>requests_made := requests_made (stats sc) + 1\<rparr>\<rparr>"

definition inc_successful_requests :: "AsyncTIMBScraper \<Rightarrow> AsyncTIMBScraper" where
  "inc_successful_requests sc =
     sc\<lparr>stats := (stats sc)\<lparr>successful_requests := successful_requests (stats sc) + 1\<rparr>\<rparr>"

definition inc_failed_requests :: "AsyncTIMBScraper \<Rightarrow> AsyncTIMBScraper" where
  "inc_failed_requests sc = sc\<lparr>stats := (stats sc)\<lparr>failed_requests := failed_requests (stats sc) + 1\<rparr>\<rparr>"

definition inc_retries :: "AsyncTIMBScraper \<Rightarrow> AsyncTIMBScraper" where
  "inc_retries sc = sc\<lparr>stats := (stats sc)\<lparr>retries := retries (stats sc) + 1\<rparr>\<rparr>"

definition inc_growers_discovered :: "AsyncTIMBScraper \<Rightarrow> AsyncTIMBScraper" where
  "inc_growers_discovered sc =
     sc\<lparr>stats := (stats sc)\<lparr>growers_discovered := growers_discovered (stats sc) + 1\<rparr>\<rparr>"

definition login :: "world \<Rightarrow> AsyncTIMBScraper \<Rightarrow> bool \<times> AsyncTIMBScraper" where
  "login w sc =
     (let sc1 = sc\<lparr>login_posts := login_posts sc @ [(username sc, password sc)]\<rparr> in
      case login_page w (username sc) (password sc) of
        Failed e \<Rightarrow> (False, sc1)
      | Body txt \<Rightarrow>
          if contains ''Welcome'' txt \<and> \<not> contains ''Not logged in'' txt
          then (True, sc1\<lparr>is_logged_in := True\<rparr>)
          else (False, sc1))"

definition lookup_payload :: "string \<Rightarrow> int \<Rightarrow> lookup_post" where
  "lookup_payload gid season =
     \<lparr>deleteprefix = (if gid \<noteq> [] then [hd gid] else []),
      deletegnumber = (if length gid > 1 then tl gid else []),
      deletesuffix = [], season_field = season\<rparr>"

text \<open>
  \<^verbatim>\<open>_fetch_single_report\<close>: one physical request. \<open>Inl\<close> is the exception that the
  method re-raises.
\<close>

definition fetch_single_report ::
  "world \<Rightarrow> nat \<Rightarrow> string \<Rightarrow> int \<Rightarrow> AsyncTIMBScraper \<Rightarrow> (exn + report option) \<times> AsyncTIMBScraper" where
  "fetch_single_report w attempt gid season sc =
     (let payload = lookup_payload gid season;
          sc1 = (inc_requests_made sc)\<lparr>posts := posts sc @ [payload]\<rparr>
      in case portal w payload attempt of
           Failed e \<Rightarrow> (Inl (RequestError e), sc1)
         | Body html_content \<Rightarrow> (Inr (parse_report (bs w) html_content), sc1))"

text \<open>
  \<^verbatim>\<open>fetch_report_with_retry\<close>: the \<^verbatim>\<open>for attempt in range(max_retries + 1)\<close> loop, and
  the two statements after it when the list of attempts is used up.
\<close>

fun retry_loop ::
  "world \<Rightarrow> string \<Rightarrow> int \<Rightarrow> nat list \<Rightarrow> AsyncTIMBScraper \<Rightarrow> report option \<times> AsyncTIMBScraper" where
  "retry_loop w gid season [] sc = (None, inc_failed_requests sc)"
| "retry_loop w gid season (attempt # rest) sc =
     (case fetch_single_report w attempt gid season sc of
        (Inr (Some result), sc1) \<Rightarrow> (Some result, inc_successful_requests sc1)
      | (Inr None, sc1) \<Rightarrow>
          retry_loop w gid season rest
            (if attempt < max_retries (config sc1) then inc_retries sc1 else sc1)
      | (Inl e, sc1) \<Rightarrow>
          retry_loop w gid season rest
            (if attempt < max_retries (config sc1) then inc_retries sc1
             else inc_failed_requests sc1))"

definition fetch_report_with_retry ::
  "world \<Rightarrow> string \<Rightarrow> int \<Rightarrow> AsyncTIMBScraper \<Rightarrow> report option \<times> AsyncTIMBScraper" where
  "fetch_report_with_retry w gid season sc =
     retry_loop w gid season [0..<max_retries (config sc) + 1] sc"

text \<open>
  The test of \<^verbatim>\<open>discover_grower_first_season\<close>:
  \<^verbatim>\<open>report_data and report_data.get('grower_info', {}).get('name', '').strip()\<close>.
\<close>

definition has_name :: "report option \<Rightarrow> bool" where
  "has_name report_data =
     (case report_data of
        None \<Rightarrow> False
      | Some r \<Rightarrow> strip (dict_get_default (grower_info r) ''name'' []) \<noteq> [])"

fun discover_loop ::
  "world \<Rightarrow> string \<Rightarrow> int list \<Rightarrow> AsyncTIMBScraper \<Rightarrow> GrowerDiscoveryResult option \<times> AsyncTIMBScraper" where
  "discover_loop w gid [] sc = (None, sc)"
| "discover_loop w gid (year # years) sc =
     (case fetch_report_with_retry w gid year sc of
        (report_data, sc1) \<Rightarrow>
          if has_name report_data
          then (Some \<lparr>grower_id = gid, first_season = year, first_report_data = the report_data\<rparr>,
                inc_growers_discovered sc1)
          else discover_loop w gid years sc1)"

definition discover_grower_first_season ::
  "world \<Rightarrow> string \<Rightarrow> AsyncTIMBScraper \<Rightarrow> GrowerDiscoveryResult option \<times> AsyncTIMBScraper" where
  "discover_grower_first_season w gid sc =
     discover_loop w gid [start_year sc..current_year sc] sc"

text \<open>
  \<^verbatim>\<open>asyncio.gather\<close> returns the results in the order of its arguments. The tasks are
  run here one after the other in that order: with a fixture portal the result of a task
  does not depend on how the tasks interleave.
\<close>

fun gather :: "('a \<Rightarrow> 's \<Rightarrow> 'b \<times> 's) \<Rightarrow> 'a list \<Rightarrow> 's \<Rightarrow> 'b list \<times> 's" where
  "gather task [] sc = ([], sc)"
| "gather task (x # xs) sc =
     (case task x sc of (y, sc1) \<Rightarrow> (case gather task xs sc1 of (ys, sc2) \<Rightarrow> (y # ys, sc2)))"

definition discover_growers_batch ::
  "world \<Rightarrow> string list \<Rightarrow> AsyncTIMBScraper \<Rightarrow> GrowerDiscoveryResult list \<times> AsyncTIMBScraper" where
  "discover_growers_batch w grower_ids sc =
     (case gather (discover_grower_first_season w) grower_ids sc of
        (results, sc1) \<Rightarrow> (List.map_filter (\<lambda>r. r) results, sc1))"

definition fetch_with_metadata ::
  "world \<Rightarrow> string \<times> int \<Rightarrow> AsyncTIMBScraper \<Rightarrow> (string \<times> int \<times> report) option \<times> AsyncTIMBScraper" where
  "fetch_with_metadata w pair sc =
     (case fetch_report_with_retry w (fst pair) (snd pair) sc of
        (report_data, sc1) \<Rightarrow>
          (case report_data of None \<Rightarrow> None | Some r \<Rightarrow> Some (fst pair, snd pair, r), sc1))"

definition fetch_multiple_reports ::
  "world \<Rightarrow> (string \<times> int) list \<Rightarrow> AsyncTIMBScraper \<Rightarrow> (string \<times> int \<times> report) list \<times> AsyncTIMBScraper" where
  "fetch_multiple_reports w grower_season_pairs sc =
     (case gather (fetch_with_metadata w) grower_season_pairs sc of
        (results, sc1) \<Rightarrow> (List.map_filter (\<lambda>r. r) results, sc1))"


section \<open>The store (models.py)\<close>

text \<open>
  The tables that the commands write. \<open>Grower\<close> is keyed by \<open>grower_number\<close> (its
  primary key), \<open>SeasonalReport\<close> by the pair of its grower and \<open>season_year\<close>
  (\<^verbatim>\<open>unique_together\<close>), contractors and creditors by their names. The grade and
  creditor rows of a report are kept inside the report's row.

  An insert is refused when it breaks a declaration of models.py: the primary key of
  \<open>Grower\<close>, the uniqueness of \<open>national_id\<close>, the uniqueness of the pair of a
  \<open>SeasonalReport\<close>, the foreign key of a report to its grower, and the three decimal
  columns of \<open>GradeAnalysis\<close> that are not nullable. What the database checks on the
  columns of a single row besides that (the length of a character column, the digits of a
  decimal column, the range of an integer column) depends on the database and is a
  parameter: \<open>grower_row_ok\<close>, \<open>name_row_ok\<close> for a contractor or a creditor, and
  \<open>report_row_ok\<close> for a seasonal report with its grade and creditor rows. They are
  part of the store and no command changes them.
\<close>

record Grower =
  grower_number :: string
  grower_name :: string
  surname :: string
  national_id :: string
  farming_province :: string
  farm_name :: string
  address :: string
  first_sales_year :: "int option"

record CreditorRecovery =
  cr_creditor :: string
  cr_total_owed_usd :: "rat option"
  cr_total_paid_usd :: "rat option"
  cr_recovery_percentage :: "rat option"

record SeasonalReport =
  sr_grower :: string
  season_year :: int
  contractor :: "string option"
  sr_total_bales :: "int option"
  sr_total_mass_kg :: "rat option"
  sr_total_value_usd :: "rat option"
  sr_average_price_usd :: "rat option"
  grade_analysis_items :: "grade_item list"
  sr_creditor_recoveries :: "CreditorRecovery list"

record store =
  growers :: "Grower list"
  contractors :: "string list"
  creditors :: "string list"
  seasonal_reports :: "SeasonalReport list"
  grower_row_ok :: "Grower \<Rightarrow> bool"
  name_row_ok :: "string \<Rightarrow> bool"
  report_row_ok :: "SeasonalReport \<Rightarrow> bool"

text \<open>\<^verbatim>\<open>SeasonalReport.objects.filter(grower=grower, season_year=season).exists()\<close>\<close>

definition report_exists :: "store \<Rightarrow> string \<Rightarrow> int \<Rightarrow> bool" where
  "report_exists db gnum season =
     list_ex (\<lambda>r. sr_grower r = gnum \<and> season_year r = season) (seasonal_reports db)"

definition get_existing_grower_ids :: "store \<Rightarrow> string list \<Rightarrow> string list" where
  "get_existing_grower_ids db grower_ids =
     filter (\<lambda>n. n \<in> set grower_ids) (map grower_number (growers db))"

definition get_existing_seasons_for_grower :: "store \<Rightarrow> string \<Rightarrow> int list" where
  "get_existing_seasons_for_grower db gid =
     map season_year (filter (\<lambda>r. sr_grower r = gid) (seasonal_reports db))"

definition get_grower_by_id :: "store \<Rightarrow> string \<Rightarrow> Grower option" where
  "get_grower_by_id db gid = find (\<lambda>g. grower_number g = gid) (growers db)"

text \<open>\<^verbatim>\<open>Model.objects.get_or_create(name=...)\<close> on a table of names.\<close>

definition get_or_create_name :: "string \<Rightarrow> string list \<Rightarrow> string list" where
  "get_or_create_name n names = (if n \<in> set names then names else names @ [n])"

text \<open>
  The insert of a \<open>Grower\<close> row (\<^verbatim>\<open>create\<close> inside \<^verbatim>\<open>get_or_create\<close>). The commands
  always pass a string for \<open>national_id\<close>, the empty one when the page has none, so two
  growers without a national id clash.
\<close>

definition insert_grower :: "Grower \<Rightarrow> store \<Rightarrow> exn + Grower \<times> store" where
  "insert_grower g db =
     (if list_ex (\<lambda>g'. grower_number g' = grower_number g) (growers db) then Inl IntegrityError
      else if list_ex (\<lambda>g'. national_id g' = national_id g) (growers db) then Inl IntegrityError
      else if \<not> grower_row_ok db g then Inl DatabaseError
      else Inr (g, db\<lparr>growers := growers db @ [g]\<rparr>))"

text \<open>Decimal rendering of an integer: \<^verbatim>\<open>str(i)\<close> and \<^verbatim>\<open>f"V{i}"\<close>.\<close>

fun digits_of_nat :: "nat \<Rightarrow> string" where
  "digits_of_nat n =
     (if n < 10 then [''0123456789'' ! n]
      else digits_of_nat (n div 10) @ [''0123456789'' ! (n mod 10)])"

declare digits_of_nat.simps [simp del]

definition str_int :: "int \<Rightarrow> string" where
  "str_int i = (if i < 0 then CHR ''-'' # digits_of_nat (nat (- i)) else digits_of_nat (nat i))"

definition grower_id_of :: "int \<Rightarrow> string" where
  "grower_id_of i = CHR ''V'' # str_int i"

section \<open>async-discover-growers.py\<close>

text \<open>
  \<^verbatim>\<open>_safe_int_convert\<close>: \<^verbatim>\<open>int(value)\<close> raises only \<^verbatim>\<open>ValueError\<close> on a string, which
  the helper catches.
\<close>

definition safe_int_convert :: "string option \<Rightarrow> int option" where
  "safe_int_convert v =
     (case v of
        None \<Rightarrow> None
      | Some s \<Rightarrow> if s = [] then None
                  else (case py_int s of Inr i \<Rightarrow> Some i | Inl e \<Rightarrow> None))"

definition grower_row :: "string \<Rightarrow> dict \<Rightarrow> int option \<Rightarrow> Grower" where
  "grower_row gnum gi fsy =
     \<lparr>grower_number = gnum,
      grower_name = dict_get_default gi ''name'' [],
      surname = dict_get_default gi ''surname'' [],
      national_id = dict_get_default gi ''national_id'' [],
      farming_province = dict_get_default gi ''farming_province'' [],
      farm_name = dict_get_default gi ''farm_name'' [],
      address = dict_get_default gi ''address'' [],
      first_sales_year = fsy\<rparr>"

text \<open>
  \<^verbatim>\<open>get_or_create_grower\<close>: \<open>Inl\<close> is the exception of a refused insert, which leaves
  the method.
\<close>

definition get_or_create_grower :: "report \<Rightarrow> store \<Rightarrow> exn + Grower \<times> store" where
  "get_or_create_grower report_data db =
     (let gi = grower_info report_data;
          mk = must_know_info report_data;
          gnum = dict_get_default gi ''grower_number'' []
      in case find (\<lambda>g. grower_number g = gnum) (growers db) of
           Some g \<Rightarrow> Inr (g, db)
         | None \<Rightarrow>
             insert_grower
               (grower_row gnum gi (safe_int_convert (dict_get mk ''first_sales_record_found''))) db)"

text \<open>
  \<^verbatim>\<open>_get_or_create_contractor\<close>: the season's own key first, then \<^verbatim>\<open>'contractor'\<close>;
  \<^verbatim>\<open>if not contractor_name\<close> holds for a missing key and for an empty string.
\<close>

definition contractor_name_of :: "report \<Rightarrow> int \<Rightarrow> string option" where
  "contractor_name_of report_data season =
     (let mk = must_know_info report_data;
          c = dict_get mk (str_int season @ ''_contractor'');
          c = (if c = None \<or> c = Some [] then dict_get mk ''contractor'' else c)
      in case c of
           None \<Rightarrow> None
         | Some n \<Rightarrow> if n \<noteq> [] \<and> strip n \<noteq> [] then Some (strip n) else None)"

definition get_or_create_contractor :: "report \<Rightarrow> int \<Rightarrow> store \<Rightarrow> string option \<times> store" where
  "get_or_create_contractor report_data season db =
     (case contractor_name_of report_data season of
        None \<Rightarrow> (None, db)
      | Some n \<Rightarrow> (Some n, db\<lparr>contractors := get_or_create_name n (contractors db)\<rparr>))"

text \<open>
  The creditor rows of a report: the items whose stripped creditor name is not empty, each
  after a \<^verbatim>\<open>get_or_create\<close> of its creditor.
\<close>

definition recovery_rows :: "creditor_item list \<Rightarrow> CreditorRecovery list" where
  "recovery_rows items =
     map (\<lambda>item. \<lparr>cr_creditor = strip (creditor_name item),
                   cr_total_owed_usd = total_owed_usd item,
                   cr_total_paid_usd = total_paid_usd item,
                   cr_recovery_percentage = recovery_percentage item\<rparr>)
       (filter (\<lambda>item. strip (creditor_name item) \<noteq> []) items)"

definition sales_field :: "(sales \<Rightarrow> 'a option) \<Rightarrow> report \<Rightarrow> 'a option" where
  "sales_field f report_data = (case sales_summary report_data of None \<Rightarrow> None | Some ss \<Rightarrow> f ss)"

definition seasonal_report_row :: "string \<Rightarrow> int \<Rightarrow> report \<Rightarrow> SeasonalReport" where
  "seasonal_report_row gnum season report_data =
     \<lparr>sr_grower = gnum, season_year = season,
      contractor = contractor_name_of report_data season,
      sr_total_bales = sales_field total_bales report_data,
      sr_total_mass_kg = sales_field total_mass_kg report_data,
      sr_total_value_usd = sales_field total_value_usd report_data,
      sr_average_price_usd = sales_field average_price_usd report_data,
      grade_analysis_items = grade_analysis report_data,
      sr_creditor_recoveries = recovery_rows (creditor_recoveries report_data)\<rparr>"

definition grade_not_null :: "grade_item \<Rightarrow> bool" where
  "grade_not_null item =
     (mass_kg item \<noteq> None \<and> value_usd item \<noteq> None \<and> grade_average_price_usd item \<noteq> None)"

text \<open>
  The inserts of one report, which the commands run inside \<^verbatim>\<open>transaction.atomic()\<close>:
  the contractor, the report, its grade rows, and its creditors and creditor rows. When
  one of them is refused the exception leaves the block and nothing of the report is
  kept, so the result is either the exception or the store with all the rows. The foreign
  key to the grower is checked when the transaction commits.
\<close>

definition insert_seasonal_data :: "store \<Rightarrow> string \<Rightarrow> int \<Rightarrow> report \<Rightarrow> exn + store" where
  "insert_seasonal_data db gnum season report_data =
     (let sr = seasonal_report_row gnum season report_data in
      if \<not> list_all (name_row_ok db)
               (filter (\<lambda>n. n \<notin> set (contractors db)) (case contractor sr of None \<Rightarrow> [] | Some n \<Rightarrow> [n]))
      then Inl DatabaseError
      else if \<not> report_row_ok db sr then Inl DatabaseError
      else if \<not> list_all grade_not_null (grade_analysis_items sr) then Inl IntegrityError
      else if \<not> list_all (name_row_ok db)
                    (filter (\<lambda>n. n \<notin> set (creditors db)) (map cr_creditor (sr_creditor_recoveries sr)))
      then Inl DatabaseError
      else if \<not> list_ex (\<lambda>g. grower_number g = gnum) (growers db) then Inl IntegrityError
      else case get_or_create_contractor report_data season db of
             (c, db1) \<Rightarrow>
               Inr (db1\<lparr>creditors := fold get_or_create_name (map cr_creditor (sr_creditor_recoveries sr))
                                        (creditors db1),
                         seasonal_reports := seasonal_reports db1 @ [sr]\<rparr>))"

text \<open>
  \<^verbatim>\<open>create_seasonal_data\<close> of the async and of the threaded command: nothing is written
  when the grower already has a report for the season.
\<close>

definition create_seasonal_data :: "store \<Rightarrow> Grower \<Rightarrow> int \<Rightarrow> report \<Rightarrow> exn + store" where
  "create_seasonal_data db grower season report_data =
     (if report_exists db (grower_number grower) season then Inr db
      else insert_seasonal_data db (grower_number grower) season report_data)"



definition seasons_to_fetch :: "store \<Rightarrow> string \<Rightarrow> int \<Rightarrow> int list" where
  "seasons_to_fetch db gid first =
     filter (\<lambda>season. season \<notin> set (get_existing_seasons_for_grower db gid)) [first + 1..2025]"

text \<open>
  The loop that saves the fetched reports of one grower: a report is counted when
  \<^verbatim>\<open>create_seasonal_data\<close> returns, and an exception is caught.
\<close>

fun save_seasonal_results :: "Grower \<Rightarrow> (string \<times> int \<times> report) list \<Rightarrow> store \<Rightarrow> nat \<times> store" where
  "save_seasonal_results grower [] db = (0, db)"
| "save_seasonal_results grower ((gid, season, report_data) # rest) db =
     (case create_seasonal_data db grower season report_data of
        Inl e \<Rightarrow> save_seasonal_results grower rest db
      | Inr db1 \<Rightarrow>
          (case save_seasonal_results grower rest db1 of (n, db2) \<Rightarrow> (n + 1, db2)))"

text \<open>The body of the loop of \<^verbatim>\<open>fetch_all_seasons_for_discovered_growers\<close>, for one result.\<close>

definition fetch_all_seasons_for_result ::
  "world \<Rightarrow> GrowerDiscoveryResult \<Rightarrow> AsyncTIMBScraper \<times> store \<Rightarrow> nat \<times> AsyncTIMBScraper \<times> store" where
  "fetch_all_seasons_for_result w result st =
     (case st of (sc, db) \<Rightarrow>
        (let to_fetch = seasons_to_fetch db (grower_id result) (first_season result) in
         if to_fetch = [] then (0, sc, db)
         else case fetch_multiple_reports w (map (Pair (grower_id result)) to_fetch) sc of
                (seasonal_results, sc1) \<Rightarrow>
                  (case get_grower_by_id db (grower_id result) of
                     None \<Rightarrow> (0, sc1, db)
                   | Some grower \<Rightarrow>
                       (case save_seasonal_results grower seasonal_results db of
                          (n, db1) \<Rightarrow> (n, sc1, db1)))))"

fun fetch_all_seasons_for_discovered_growers ::
  "world \<Rightarrow> GrowerDiscoveryResult list \<Rightarrow> AsyncTIMBScraper \<times> store \<Rightarrow> nat \<times> AsyncTIMBScraper \<times> store" where
  "fetch_all_seasons_for_discovered_growers w [] st = (0, st)"
| "fetch_all_seasons_for_discovered_growers w (result # results) st =
     (case fetch_all_seasons_for_result w result st of
        (n, st1) \<Rightarrow>
          (case fetch_all_seasons_for_discovered_growers w results st1 of
             (total_saved, st2) \<Rightarrow> (n + total_saved, st2)))"


text \<open>
  \<^verbatim>\<open>range(start, stop, step)\<close>; a zero step raises \<^verbatim>\<open>ValueError\<close>.
\<close>

definition py_range3 :: "int \<Rightarrow> int \<Rightarrow> int \<Rightarrow> exn + int list" where
  "py_range3 start stop step =
     (if step = 0 then Inl ValueError
      else if 0 < step
      then Inr (map (\<lambda>k. start + int k * step) [0..<nat ((stop - start + step - 1) div step)])
      else Inr (map (\<lambda>k. start + int k * step) [0..<nat ((start - stop - step - 1) div (- step))]))"

record options =
  opt_start :: int
  opt_end :: int
  opt_batch_size :: int
  opt_concurrent :: nat
  opt_delay :: rat
  opt_discover_only :: bool
  opt_resume :: bool




section \<open>threaded\_scraper.py\<close>

record threaded_stats =
  t_requests_made :: nat
  t_successful_requests :: nat
  t_failed_requests :: nat
  t_growers_discovered :: nat

record ThreadedTIMBScraper =
  t_username :: string
  t_password :: string
  max_workers :: nat
  t_request_delay :: rat
  t_stats :: threaded_stats
  t_login_posts :: "(string \<times> string) list"
  t_posts :: "lookup_post list"

definition ThreadedTIMBScraper_init :: "string \<Rightarrow> string \<Rightarrow> nat \<Rightarrow> rat \<Rightarrow> ThreadedTIMBScraper" where
  "ThreadedTIMBScraper_init user pass workers delay =
     \<lparr>t_username = user, t_password = pass, max_workers = workers, t_request_delay = delay,
      t_stats = \<lparr>t_requests_made = 0, t_successful_requests = 0, t_failed_requests = 0,
                 t_growers_discovered = 0\<rparr>,
      t_login_posts = [], t_posts = []\<rparr>"

definition login_threaded :: "world \<Rightarrow> ThreadedTIMBScraper \<Rightarrow> bool \<times> ThreadedTIMBScraper" where
  "login_threaded w sc =
     (let sc1 = sc\<lparr>t_login_posts := t_login_posts sc @ [(t_username sc, t_password sc)]\<rparr> in
      case login_page w (t_username sc) (t_password sc) of
        Failed e \<Rightarrow> (False, sc1)
      | Body txt \<Rightarrow> (contains ''Welcome'' txt \<and> \<not> contains ''Not logged in'' txt, sc1))"

text \<open>
  \<^verbatim>\<open>ThreadedTIMBScraper.fetch_report\<close>: a single physical request. \<^verbatim>\<open>grower_id[0]\<close>
  raises \<^verbatim>\<open>IndexError\<close> on an empty identifier; a failure of the transport is caught and
  gives \<^verbatim>\<open>None\<close>; an exception of the parser leaves the method.
\<close>

definition fetch_report_threaded ::
  "world \<Rightarrow> string \<Rightarrow> int \<Rightarrow> ThreadedTIMBScraper \<Rightarrow> (exn + report option) \<times> ThreadedTIMBScraper" where
  "fetch_report_threaded w gid season sc =
     (if gid = [] then (Inl IndexError, sc)
      else let payload = \<lparr>deleteprefix = [hd gid], deletegnumber = tl gid, deletesuffix = [],
                          season_field = season\<rparr>;
               sc1 = sc\<lparr>t_stats := (t_stats sc)\<lparr>t_requests_made := t_requests_made (t_stats sc) + 1\<rparr>,
                       t_posts := t_posts sc @ [payload]\<rparr>;
               failed = sc1\<lparr>t_stats := (t_stats sc1)\<lparr>t_failed_requests := t_failed_requests (t_stats sc1) + 1\<rparr>\<rparr>
           in case portal w payload 0 of
                Failed e \<Rightarrow> (Inr None, failed)
              | Body html_content \<Rightarrow>
                  (case parse_report_sync (bs w) html_content of
                     Inl e \<Rightarrow> (Inl e, sc1)
                   | Inr None \<Rightarrow> (Inr None, failed)
                   | Inr (Some r) \<Rightarrow>
                       (Inr (Some r),
                        sc1\<lparr>t_stats := (t_stats sc1)\<lparr>t_successful_requests :=
                                t_successful_requests (t_stats sc1) + 1\<rparr>\<rparr>)))"

fun discover_loop_threaded ::
  "world \<Rightarrow> string \<Rightarrow> int list \<Rightarrow> ThreadedTIMBScraper
     \<Rightarrow> (exn + (string \<times> int \<times> report) option) \<times> ThreadedTIMBScraper" where
  "discover_loop_threaded w gid [] sc = (Inr None, sc)"
| "discover_loop_threaded w gid (year # years) sc =
     (case fetch_report_threaded w gid year sc of
        (Inl e, sc1) \<Rightarrow> (Inl e, sc1)
      | (Inr report_data, sc1) \<Rightarrow>
          if has_name report_data
          then (Inr (Some (gid, year, the report_data)),
                sc1\<lparr>t_stats := (t_stats sc1)\<lparr>t_growers_discovered :=
                        t_growers_discovered (t_stats sc1) + 1\<rparr>\<rparr>)
          else discover_loop_threaded w gid years sc1)"

definition discover_grower_first_season_threaded ::
  "world \<Rightarrow> string \<Rightarrow> ThreadedTIMBScraper
     \<Rightarrow> (exn + (string \<times> int \<times> report) option) \<times> ThreadedTIMBScraper" where
  "discover_grower_first_season_threaded w gid sc = discover_loop_threaded w gid [2018..2025] sc"

text \<open>
  The pool of \<^verbatim>\<open>discover_growers_threaded\<close>: every identifier is submitted, and an
  exception of one task is caught when its future is read. The tasks are taken here in
  the order of submission.
\<close>

fun discover_growers_threaded ::
  "world \<Rightarrow> string list \<Rightarrow> ThreadedTIMBScraper \<Rightarrow> (string \<times> int \<times> report) list \<times> ThreadedTIMBScraper" where
  "discover_growers_threaded w [] sc = ([], sc)"
| "discover_growers_threaded w (gid # gids) sc =
     (case discover_grower_first_season_threaded w gid sc of
        (res, sc1) \<Rightarrow>
          (case discover_growers_threaded w gids sc1 of
             (found, sc2) \<Rightarrow>
               ((case res of Inr (Some d) \<Rightarrow> d # found | Inr None \<Rightarrow> found | Inl e \<Rightarrow> found), sc2)))"

fun fetch_multiple_reports_threaded ::
  "world \<Rightarrow> (string \<times> int) list \<Rightarrow> ThreadedTIMBScraper \<Rightarrow> (string \<times> int \<times> report) list \<times> ThreadedTIMBScraper" where
  "fetch_multiple_reports_threaded w [] sc = ([], sc)"
| "fetch_multiple_reports_threaded w ((gid, season) # pairs) sc =
     (case fetch_report_threaded w gid season sc of
        (res, sc1) \<Rightarrow>
          (case fetch_multiple_reports_threaded w pairs sc1 of
             (results, sc2) \<Rightarrow>
               ((case res of Inr (Some r) \<Rightarrow> (gid, season, r) # results | Inr None \<Rightarrow> results
                 | Inl e \<Rightarrow> results), sc2)))"

section \<open>threaded-discover-growers.py\<close>

text \<open>
  \<^verbatim>\<open>create_grower_from_report\<close> of the threaded and of the sequential command. The
  \<^verbatim>\<open>defaults\<close> are evaluated before \<^verbatim>\<open>get_or_create\<close> is called, so a
  \<^verbatim>\<open>first_sales_record_found\<close> that \<^verbatim>\<open>int\<close> rejects raises \<^verbatim>\<open>ValueError\<close>. For a
  report without a grower number the lookup is for \<^verbatim>\<open>None\<close> and finds nothing, and the
  row is inserted with the default of a character primary key, the empty string.
\<close>

definition create_grower_from_report :: "report \<Rightarrow> store \<Rightarrow> exn + Grower \<times> store" where
  "create_grower_from_report report_data db =
     (let gi = grower_info report_data;
          mk = must_know_info report_data;
          fsr = dict_get mk ''first_sales_record_found''
      in sum_bind (if fsr = None \<or> fsr = Some [] then Inr None
                   else sum_bind (py_int (the fsr)) (\<lambda>i. Inr (Some i)))
           (\<lambda>fsy.
              case dict_get gi ''grower_number'' of
                None \<Rightarrow> insert_grower (grower_row [] gi fsy) db
              | Some gnum \<Rightarrow>
                  (case find (\<lambda>g. grower_number g = gnum) (growers db) of
                     Some g \<Rightarrow> Inr (g, db)
                   | None \<Rightarrow> insert_grower (grower_row gnum gi fsy) db)))"

text \<open>
  \<^verbatim>\<open>save_discovered_growers\<close> of the threaded command: the grower and its first report
  are written in one transaction, and an exception leaves the store as it was.
\<close>

fun save_discovered_growers_threaded :: "(string \<times> int \<times> report) list \<Rightarrow> store \<Rightarrow> store" where
  "save_discovered_growers_threaded [] db = db"
| "save_discovered_growers_threaded ((gid, first, report_data) # rest) db =
     save_discovered_growers_threaded rest
       (case create_grower_from_report report_data db of
          Inl e \<Rightarrow> db
        | Inr (grower, db1) \<Rightarrow>
            (case create_seasonal_data db1 grower first report_data of
               Inl e \<Rightarrow> db
             | Inr db2 \<Rightarrow> db2))"

definition fetch_remaining_seasons_for ::
  "world \<Rightarrow> string \<times> int \<times> report \<Rightarrow> ThreadedTIMBScraper \<times> store \<Rightarrow> nat \<times> ThreadedTIMBScraper \<times> store" where
  "fetch_remaining_seasons_for w discovered st =
     (case (discovered, st) of ((gid, first, _), (sc, db)) \<Rightarrow>
        (let missing_seasons = seasons_to_fetch db gid first in
         if missing_seasons = [] then (0, sc, db)
         else case fetch_multiple_reports_threaded w (map (Pair gid) missing_seasons) sc of
                (results, sc1) \<Rightarrow>
                  (case get_grower_by_id db gid of
                     None \<Rightarrow> (0, sc1, db)
                   | Some grower \<Rightarrow>
                       (case save_seasonal_results grower results db of
                          (n, db1) \<Rightarrow> (n, sc1, db1)))))"

fun fetch_remaining_seasons ::
  "world \<Rightarrow> (string \<times> int \<times> report) list \<Rightarrow> ThreadedTIMBScraper \<times> store \<Rightarrow> nat \<times> ThreadedTIMBScraper \<times> store" where
  "fetch_remaining_seasons w [] st = (0, st)"
| "fetch_remaining_seasons w (d # ds) st =
     (case fetch_remaining_seasons_for w d st of
        (n, st1) \<Rightarrow>
          (case fetch_remaining_seasons w ds st1 of (total_saved, st2) \<Rightarrow> (n + total_saved, st2)))"

definition process_batch_threaded ::
  "world \<Rightarrow> int \<Rightarrow> int \<Rightarrow> bool \<Rightarrow> bool \<Rightarrow> ThreadedTIMBScraper \<times> store
     \<Rightarrow> (nat \<times> nat) \<times> ThreadedTIMBScraper \<times> store" where
  "process_batch_threaded w start_id end_id discover_only resume st =
     (case st of (sc, db) \<Rightarrow>
        (let all_ids = map grower_id_of [start_id..end_id];
             grower_ids = (if resume
                           then filter (\<lambda>gid. gid \<notin> set (get_existing_grower_ids db all_ids)) all_ids
                           else all_ids)
         in if grower_ids = [] then ((0, 0), sc, db)
            else case discover_growers_threaded w grower_ids sc of
                   (discovered_growers, sc1) \<Rightarrow>
                     if discovered_growers = [] then ((0, 0), sc1, db)
                     else (let db1 = save_discovered_growers_threaded discovered_growers db in
                           if discover_only then ((length discovered_growers, 0), sc1, db1)
                           else case fetch_remaining_seasons w discovered_growers (sc1, db1) of
                                  (reports_saved, st2) \<Rightarrow> ((length discovered_growers, reports_saved), st2))))"

fun run_batches_threaded ::
  "world \<Rightarrow> int \<Rightarrow> int \<Rightarrow> bool \<Rightarrow> bool \<Rightarrow> int list \<Rightarrow> ThreadedTIMBScraper \<times> store
     \<Rightarrow> (nat \<times> nat) \<times> ThreadedTIMBScraper \<times> store" where
  "run_batches_threaded w end_id batch_size discover_only resume [] st = ((0, 0), st)"
| "run_batches_threaded w end_id batch_size discover_only resume (batch_start # rest) st =
     (case process_batch_threaded w batch_start (min (batch_start + batch_size - 1) end_id)
             discover_only resume st of
        ((discovered, reports_saved), st1) \<Rightarrow>
          (case run_batches_threaded w end_id batch_size discover_only resume rest st1 of
             ((total_discovered, total_reports_saved), st2) \<Rightarrow>
               ((discovered + total_discovered, reports_saved + total_reports_saved), st2)))"

text \<open>
  \<^verbatim>\<open>Command.handle\<close> of the threaded command. \<open>typed\<close> is what the operator would type
  at the two prompts; the prompts are commented out in the source and the two literals of
  lines 48 and 49 are used.
\<close>

definition handle_threaded ::
  "world \<Rightarrow> string \<times> string \<Rightarrow> options \<Rightarrow> store
     \<Rightarrow> exn + ((nat \<times> nat) \<times> ThreadedTIMBScraper \<times> store)" where
  "handle_threaded w typed opts db =
     (let user = ''DSAMAKANDE'';
          pass = ''D@654321s''
      in case login_threaded w
                (ThreadedTIMBScraper_init user pass (opt_concurrent opts) (opt_delay opts)) of
           (ok, sc) \<Rightarrow>
             if \<not> ok then Inr ((0, 0), sc, db)
             else case py_range3 (opt_start opts) (opt_end opts + 1) (opt_batch_size opts) of
                    Inl e \<Rightarrow> Inl e
                  | Inr batch_starts \<Rightarrow>
                      Inr (run_batches_threaded w (opt_end opts) (opt_batch_size opts)
                             (opt_discover_only opts) (opt_resume opts) batch_starts (sc, db)))"

section \<open>scraper.py and discover-growers.py\<close>

record TIMBScraper =
  s_username :: string
  s_password :: string
  s_login_posts :: "(string \<times> string) list"
  s_posts :: "lookup_post list"

definition TIMBScraper_init :: "string \<Rightarrow> string \<Rightarrow> TIMBScraper" where
  "TIMBScraper_init user pass =
     \<lparr>s_username = user, s_password = pass, s_login_posts = [], s_posts = []\<rparr>"

definition login_sync :: "world \<Rightarrow> TIMBScraper \<Rightarrow> bool \<times> TIMBScraper" where
  "login_sync w sc =
     (let sc1 = sc\<lparr>s_login_posts := s_login_posts sc @ [(s_username sc, s_password sc)]\<rparr> in
      case login_page w (s_username sc) (s_password sc) of
        Failed e \<Rightarrow> (False, sc1)
      | Body txt \<Rightarrow> (contains ''Welcome'' txt \<and> \<not> contains ''Not logged in'' txt, sc1))"

text \<open>
  \<^verbatim>\<open>TIMBScraper.fetch_report\<close>: \<^verbatim>\<open>None\<close> for the portal's "no record" page and for a
  failure of the transport.
\<close>

definition fetch_report_sync ::
  "world \<Rightarrow> string \<Rightarrow> int \<Rightarrow> TIMBScraper \<Rightarrow> (exn + report option) \<times> TIMBScraper" where
  "fetch_report_sync w gid season sc =
     (if gid = [] then (Inl IndexError, sc)
      else let payload = \<lparr>deleteprefix = [hd gid], deletegnumber = tl gid, deletesuffix = [],
                          season_field = season\<rparr>;
               sc1 = sc\<lparr>s_posts := s_posts sc @ [payload]\<rparr>
           in case portal w payload 0 of
                Failed e \<Rightarrow> (Inr None, sc1)
              | Body html_content \<Rightarrow> (parse_report_sync (bs w) html_content, sc1))"

definition GROWER_ID_START :: int where "GROWER_ID_START = 100000"

definition GROWER_ID_END :: int where "GROWER_ID_END = 400000"

definition SEASONS :: "int list" where
  "SEASONS = [2024, 2023, 2022, 2021, 2020, 2019, 2018, 2025]"

text \<open>
  \<^verbatim>\<open>create_seasonal_data\<close> of the sequential command: no check of its own; the insert
  raises \<^verbatim>\<open>IntegrityError\<close> when the pair is already there. The creditor names are
  tested with \<^verbatim>\<open>creditor_name and creditor_name.strip()\<close>, as in the other commands.
\<close>

definition create_seasonal_data_sync :: "store \<Rightarrow> Grower \<Rightarrow> int \<Rightarrow> report \<Rightarrow> exn + store" where
  "create_seasonal_data_sync db grower season report_data =
     (if report_exists db (grower_number grower) season then Inl IntegrityError
      else insert_seasonal_data db (grower_number grower) season report_data)"

text \<open>
  \<^verbatim>\<open>scrape_all_seasons_for_grower\<close>; each save is one transaction, so an exception keeps
  the store of the seasons saved before.
\<close>

fun scrape_seasons ::
  "world \<Rightarrow> Grower \<Rightarrow> int list \<Rightarrow> TIMBScraper \<times> store \<Rightarrow> (exn + unit) \<times> TIMBScraper \<times> store" where
  "scrape_seasons w grower [] st = (Inr (), st)"
| "scrape_seasons w grower (season # rest) (sc, db) =
     (if report_exists db (grower_number grower) season then scrape_seasons w grower rest (sc, db)
      else case fetch_report_sync w (grower_number grower) season sc of
             (Inl e, sc1) \<Rightarrow> (Inl e, sc1, db)
           | (Inr None, sc1) \<Rightarrow> scrape_seasons w grower rest (sc1, db)
           | (Inr (Some report_data), sc1) \<Rightarrow>
               (case create_seasonal_data_sync db grower season report_data of
                  Inl e \<Rightarrow> (Inl e, sc1, db)
                | Inr db1 \<Rightarrow> scrape_seasons w grower rest (sc1, db1)))"

definition scrape_all_seasons_for_grower ::
  "world \<Rightarrow> Grower \<Rightarrow> TIMBScraper \<times> store \<Rightarrow> (exn + unit) \<times> TIMBScraper \<times> store" where
  "scrape_all_seasons_for_grower w grower st = scrape_seasons w grower SEASONS st"

text \<open>
  The discovery probe of \<^verbatim>\<open>Command.handle\<close>: the inner \<^verbatim>\<open>for season in SEASONS\<close> loop.
  \<^verbatim>\<open>report_data['grower_info']['name']\<close> raises \<^verbatim>\<open>TypeError\<close> when \<^verbatim>\<open>fetch_report\<close>
  returned \<^verbatim>\<open>None\<close> and \<^verbatim>\<open>KeyError\<close> when the report has no name. The result is the
  value of \<^verbatim>\<open>report_data\<close> after the loop: the report of the \<^verbatim>\<open>break\<close>, or the last one
  fetched.
\<close>

fun probe_seasons ::
  "world \<Rightarrow> string \<Rightarrow> int list \<Rightarrow> report option \<Rightarrow> TIMBScraper \<Rightarrow> (exn + report option) \<times> TIMBScraper" where
  "probe_seasons w gid [] last_report sc = (Inr last_report, sc)"
| "probe_seasons w gid (season # rest) last_report sc =
     (case fetch_report_sync w gid season sc of
        (Inl e, sc1) \<Rightarrow> (Inl e, sc1)
      | (Inr None, sc1) \<Rightarrow> (Inl TypeError, sc1)
      | (Inr (Some r), sc1) \<Rightarrow>
          (case dict_get (grower_info r) ''name'' of
             None \<Rightarrow> (Inl KeyError, sc1)
           | Some n \<Rightarrow> if n \<noteq> [] then (Inr (Some r), sc1)
                       else probe_seasons w gid rest (Some r) sc1))"

text \<open>The body of the loop over the identifiers, and the loop: an exception ends the run.\<close>

definition handle_grower ::
  "world \<Rightarrow> string \<Rightarrow> TIMBScraper \<times> store \<Rightarrow> (exn + unit) \<times> TIMBScraper \<times> store" where
  "handle_grower w gid st =
     (case st of (sc, db) \<Rightarrow>
        (case get_grower_by_id db gid of
           Some grower \<Rightarrow> scrape_all_seasons_for_grower w grower (sc, db)
         | None \<Rightarrow>
             (case probe_seasons w gid SEASONS None sc of
                (Inl e, sc1) \<Rightarrow> (Inl e, sc1, db)
              | (Inr None, sc1) \<Rightarrow> (Inr (), sc1, db)
              | (Inr (Some report_data), sc1) \<Rightarrow>
                  (case create_grower_from_report report_data db of
                     Inl e \<Rightarrow> (Inl e, sc1, db)
                   | Inr (grower, db1) \<Rightarrow> scrape_all_seasons_for_grower w grower (sc1, db1)))))"

fun handle_growers ::
  "world \<Rightarrow> int list \<Rightarrow> TIMBScraper \<times> store \<Rightarrow> (exn + unit) \<times> TIMBScraper \<times> store" where
  "handle_growers w [] st = (Inr (), st)"
| "handle_growers w (i # rest) st =
     (case handle_grower w (grower_id_of i) st of
        (Inl e, st1) \<Rightarrow> (Inl e, st1)
      | (Inr u, st1) \<Rightarrow> handle_growers w rest st1)"

definition handle_sync ::
  "world \<Rightarrow> string \<times> string \<Rightarrow> store \<Rightarrow> (exn + unit) \<times> TIMBScraper \<times> store" where
  "handle_sync w typed db =
     (case login_sync w (TIMBScraper_init (fst typed) (snd typed)) of
        (ok, sc) \<Rightarrow>
          if \<not> ok then (Inr (), sc, db)
          else handle_growers w [GROWER_ID_START..GROWER_ID_END] (sc, db))"

section \<open>Predicates on stores, scrapers and portals used in the statements\<close>

text \<open>
  The keys of the persisted reports and the grower numbers of the store. \<open>store_le\<close> is
  the order "every grower and every report key of \<open>db\<close> is in \<open>db'\<close>, and the checks of
  the database are the same". \<open>missing_seasons\<close> are the periods after a first period
  and up to 2025 for which the store has no report of an identifier.

  A discovery result is \<open>settled\<close> in a store when saving it cannot create its grower
  any more: the grower of its report is there, or the insert of that grower is refused. A
  batch of identifiers is settled when this holds for the discovery result of every
  identifier of the batch that is not a grower of the store. \<open>same_setup\<close> relates two
  states of a scraper with the same configuration and range of years.

  \<open>answers_own_number\<close> is a property of a portal: every report that it serves for a
  lookup carries, as its grower number, the identifier that was looked up.
\<close>

definition report_keys :: "store \<Rightarrow> (string \<times> int) list" where
  "report_keys db = map (\<lambda>r. (sr_grower r, season_year r)) (seasonal_reports db)"

definition grower_numbers :: "store \<Rightarrow> string set" where
  "grower_numbers db = grower_number ` set (growers db)"

definition store_le :: "store \<Rightarrow> store \<Rightarrow> bool" where
  "store_le db db' =
     (set (growers db) \<subseteq> set (growers db') \<and> set (report_keys db) \<subseteq> set (report_keys db') \<and>
      grower_row_ok db' = grower_row_ok db \<and> name_row_ok db' = name_row_ok db \<and>
      report_row_ok db' = report_row_ok db)"

definition missing_seasons :: "store \<Rightarrow> string \<Rightarrow> int \<Rightarrow> int set" where
  "missing_seasons db gid first = {s. first < s \<and> s \<le> 2025 \<and> (gid, s) \<notin> set (report_keys db)}"

definition report_number :: "report \<Rightarrow> string" where
  "report_number report_data = dict_get_default (grower_info report_data) ''grower_number'' []"





section \<open>Fixtures\<close>

text \<open>
  Concrete portals in the style of the scenarios of the specification: one that has no
  record for anything, one whose transport always times out, one that times out twice
  and then answers, and one where V100003 has reports from 2019 on. \<open>fixture_bs\<close> is a
  parsed page with a name and a grower number.
\<close>

definition plain_cell :: "string \<Rightarrow> cell" where
  "plain_cell t = \<lparr>get_text = t, get_text_strip = strip t, get_text_sep_strip = strip t\<rparr>"

definition fixture_soup :: soup where
  "fixture_soup =
     \<lparr>info_rows =
        [\<lparr>row_text = ''Grower Number: V100003'', cells = [plain_cell ''Grower Number:'', plain_cell ''V100003'']\<rparr>,
         \<lparr>row_text = ''Name: TENDAI'', cells = [plain_cell ''Name:'', plain_cell '' TENDAI '']\<rparr>],
      sales_table = None, grade_table = None, creditor_table = None\<rparr>"

definition fixture_report :: report where
  "fixture_report =
     \<lparr>grower_info = [(''grower_number'', ''V100003''), (''name'', ''TENDAI'')],
      must_know_info = [], sales_summary = None, grade_analysis = [], creditor_recoveries = []\<rparr>"

definition fixture_bs :: "string \<Rightarrow> soup option" where
  "fixture_bs html_content = Some fixture_soup"

definition absent_world :: world where
  "absent_world =
     \<lparr>bs = fixture_bs, login_page = (\<lambda>u p. Body ''Welcome''),
      portal = (\<lambda>p a. Body ''Please specify the grower number'')\<rparr>"

definition failing_world :: world where
  "failing_world =
     \<lparr>bs = fixture_bs, login_page = (\<lambda>u p. Body ''Welcome''),
      portal = (\<lambda>p a. Failed Timeout)\<rparr>"

definition flaky_world :: world where
  "flaky_world =
     \<lparr>bs = fixture_bs, login_page = (\<lambda>u p. Body ''Welcome''),
      portal = (\<lambda>p a. if a < 2 then Failed Timeout else Body ''<html>report</html>'')\<rparr>"

definition fixture_world :: world where
  "fixture_world =
     \<lparr>bs = fixture_bs, login_page = (\<lambda>u p. Body ''Welcome''),
      portal = (\<lambda>p a. if deleteprefix p = ''V'' \<and> deletegnumber p = ''100003'' \<and> 2019 \<le> season_field p
                       then Body ''<html>report</html>''
                       else Body ''Please specify the grower number'')\<rparr>"

text \<open>
  A page whose labels have no colon, which the parser of the threaded scraper reads with
  the same keys as the parser of the async one, and a portal for it: V100003 has reports
  from 2019 on, V100002 too, but its page for 2018 is one that the HTML parser rejects.
\<close>

definition plain_soup :: soup where
  "plain_soup =
     \<lparr>info_rows =
        [\<lparr>row_text = ''Grower Number V100003'', cells = [plain_cell ''Grower Number'', plain_cell ''V100003'']\<rparr>,
         \<lparr>row_text = ''Name TENDAI'', cells = [plain_cell ''Name'', plain_cell '' TENDAI '']\<rparr>],
      sales_table = None, grade_table = None, creditor_table = None\<rparr>"

definition plain_world :: world where
  "plain_world =
     \<lparr>bs = (\<lambda>html_content. if html_content = ''<html>broken</html>'' then None else Some plain_soup),
      login_page = (\<lambda>u p. Body ''Welcome''),
      portal = (\<lambda>p a. if deleteprefix p = ''V'' \<and> deletegnumber p = ''100003'' \<and> 2019 \<le> season_field p
                       then Body ''<html>report</html>''
                       else if deleteprefix p = ''V'' \<and> deletegnumber p = ''100002''
                       then (if 2019 \<le> season_field p then Body ''<html>report</html>''
                             else Body ''<html>broken</html>'')
                       else Body ''Please specify the grower number'')\<rparr>"

definition fixture_threaded_scraper :: ThreadedTIMBScraper where
  "fixture_threaded_scraper = ThreadedTIMBScraper_init ''operator'' ''secret'' 6 5"

definition empty_store :: store where
  "empty_store =
     \<lparr>growers = [], contractors = [], creditors = [], seasonal_reports = [],
      grower_row_ok = (\<lambda>g. True), name_row_ok = (\<lambda>n. True), report_row_ok = (\<lambda>r. True)\<rparr>"

text \<open>A store that has V100003 and its reports for 2019 and 2021.\<close>

definition half_store :: store where
  "half_store =
     empty_store
       \<lparr>growers := [grower_row ''V100003'' (grower_info fixture_report) None],
        seasonal_reports := [seasonal_report_row ''V100003'' 2019 fixture_report,
                             seasonal_report_row ''V100003'' 2021 fixture_report]\<rparr>"

definition fixture_options :: options where
  "fixture_options =
     \<lparr>opt_start = 100003, opt_end = 100003, opt_batch_size = 100, opt_concurrent = 6,
      opt_delay = 2 / 5, opt_discover_only = False, opt_resume = True\<rparr>"










definition fixture_scraper :: AsyncTIMBScraper where
  "fixture_scraper =
     AsyncTIMBScraper_init ''operator'' ''secret''
       \<lparr>max_concurrent_requests = 6, request_delay = 2 / 5, timeout = 30, max_retries = 2,
        retry_delay = 1\<rparr>"


section \<open>Properties of the parsing helpers\<close>

lemmas text_defs = strip_def isspace_def isdigit_def replace_chr_def lower_chr_def
  upper_letters_def lower_letters_def clean_text_def
  key_sync_def key_async_def

lemmas number_defs = parse_value_def parse_int_def py_float_def py_int_def digits_value_def
  digit_val_def Let_def

lemmas parser_defs = parse_report_def build_report_def parse_sales_summary_def
  parse_grade_analysis_def parse_creditor_recoveries_def sum_bind_def

lemmas fixture_defs = fixture_soup_def fixture_bs_def plain_cell_def fixture_report_def
  absent_world_def failing_world_def flaky_world_def fixture_world_def fixture_scraper_def
  AsyncTIMBScraper_init_def empty_store_def fixture_options_def

lemmas inc_defs = inc_requests_made_def inc_successful_requests_def inc_failed_requests_def
  inc_retries_def inc_growers_discovered_def

lemma py_float_error: "py_float s = Inl e \<Longrightarrow> e = ValueError"
  by (auto simp: py_float_def Let_def split: list.splits if_splits)

lemma py_int_error: "py_int s = Inl e \<Longrightarrow> e = ValueError"
  by (auto simp: py_int_def Let_def split: if_splits)

lemma parse_value_total: "\<exists>v. parse_value text = Inr v"
  by (auto simp: parse_value_def Let_def split: sum.splits dest: py_float_error)

lemma parse_int_total: "\<exists>v. parse_int text = Inr v"
  by (auto simp: parse_int_def Let_def split: sum.splits dest: py_int_error)

lemma strip_all_space: "list_all isspace s \<Longrightarrow> strip s = []"
  by (auto simp: strip_def list_all_iff dropWhile_eq_Nil_conv dest: set_dropWhileD)

lemma py_float_no_digit:
  assumes "\<forall>c\<in>set s. \<not> isdigit c"
  shows "py_float s = Inl ValueError"
proof (cases s)
  case Nil
  then show ?thesis by (simp add: py_float_def)
next
  case (Cons c fp)
  with assms have "\<not> isdigit c" and fp: "\<forall>d\<in>set fp. \<not> isdigit d" by auto
  then have "takeWhile isdigit s = []" "dropWhile isdigit s = c # fp"
    using Cons by auto
  moreover have "\<not> (list_all isdigit fp \<and> fp \<noteq> [])"
    using fp by (cases fp) (auto simp: list_all_iff)
  ultimately show ?thesis by (auto simp: py_float_def)
qed

lemma parse_value_no_digit: "\<not> list_ex isdigit text \<Longrightarrow> parse_value text = Inr None"
proof -
  assume "\<not> list_ex isdigit text"
  then have "\<forall>c\<in>set (filter (\<lambda>c. isdigit c \<or> c = CHR ''.'') text). \<not> isdigit c"
    by (auto simp: list_ex_iff)
  then have "py_float (filter (\<lambda>c. isdigit c \<or> c = CHR ''.'') text) = Inl ValueError"
    by (rule py_float_no_digit)
  then show ?thesis by (simp add: parse_value_def Let_def)
qed

lemma parse_int_no_digit: "\<not> list_ex isdigit text \<Longrightarrow> parse_int text = Inr None"
  by (auto simp: parse_int_def Let_def list_ex_iff filter_empty_conv)

text \<open>
  Claim C10. For every input string, \<^verbatim>\<open>_parse_value\<close> and \<^verbatim>\<open>_parse_int\<close> return a value
  (\<^verbatim>\<open>None\<close> or a number) and never raise; they return \<^verbatim>\<open>None\<close> whenever the input is
  empty, all whitespace, or has no digit.
\<close>

theorem parse_helpers_total:
  "(\<exists>v. parse_value text = Inr v) \<and> (\<exists>n. parse_int text = Inr n) \<and>
   (text = [] \<or> list_all isspace text \<or> \<not> list_ex isdigit text \<longrightarrow>
      parse_value text = Inr None \<and> parse_int text = Inr None)"
proof (intro conjI impI)
  show "\<exists>v. parse_value text = Inr v" by (rule parse_value_total)
  show "\<exists>n. parse_int text = Inr n" by (rule parse_int_total)
next
  assume h: "text = [] \<or> list_all isspace text \<or> \<not> list_ex isdigit text"
  then consider "text = [] \<or> strip text = []" | "\<not> list_ex isdigit text"
    using strip_all_space by blast
  then show "parse_value text = Inr None"
  proof cases
    case 1
    then show ?thesis by (auto simp: parse_value_def)
  next
    case 2
    then show ?thesis by (rule parse_value_no_digit)
  qed
  from h consider "text = [] \<or> strip text = []" | "\<not> list_ex isdigit text"
    using strip_all_space by blast
  then show "parse_int text = Inr None"
  proof cases
    case 1
    then show ?thesis by (auto simp: parse_int_def)
  next
    case 2
    then show ?thesis by (rule parse_int_no_digit)
  qed
qed

theorem parse_helpers_total_witness:
  "(\<not> list_ex isdigit ''N/A.'' \<and> parse_value ''N/A.'' = Inr None \<and> parse_int ''N/A.'' = Inr None) \<and>
   (list_all isspace [CHR '' '', CHR 0x09] \<and> parse_value [CHR '' '', CHR 0x09] = Inr None
      \<and> parse_int [CHR '' '', CHR 0x09] = Inr None) \<and>
   parse_value ''1,234.50'' = Inr (Some (2469 / 2)) \<and> parse_value ''1.2.3'' = Inr None \<and>
   parse_int ''12 bales'' = Inr (Some 12)"
proof -
  have a: "\<not> list_ex isdigit ''N/A.''" by (simp add: isdigit_def)
  have b: "list_all isspace [CHR '' '', CHR 0x09]" by (simp add: isspace_def)
  have c: "parse_value ''1,234.50'' = Inr (Some (2469 / 2))" by (simp add: number_defs text_defs)
  have d: "parse_value ''1.2.3'' = Inr None" by (simp add: number_defs text_defs)
  have e: "parse_int ''12 bales'' = Inr (Some 12)" by (simp add: number_defs text_defs)
  show ?thesis
    using a b c d e parse_helpers_total [of "''N/A.''"]
      parse_helpers_total [of "[CHR '' '', CHR 0x09]"]
    by blast
qed

section \<open>Properties of the retry loop\<close>

lemma retry_loop_prefix:
  assumes "\<forall>a\<in>set as. a < max_retries (config sc) \<and>
             (case portal w (lookup_payload g s) a of Failed e \<Rightarrow> True
              | Body h \<Rightarrow> parse_report (bs w) h = None)"
  shows "retry_loop w g s (as @ rest) sc =
         retry_loop w g s rest
           (sc\<lparr>stats := (stats sc)\<lparr>requests_made := requests_made (stats sc) + length as,
                                   retries := retries (stats sc) + length as\<rparr>,
               posts := posts sc @ replicate (length as) (lookup_payload g s)\<rparr>)"
  using assms
proof (induction as arbitrary: sc)
  case Nil
  then show ?case by simp
next
  case (Cons a as)
  let ?sc1 = "(inc_retries ((inc_requests_made sc)\<lparr>posts := posts sc @ [lookup_payload g s]\<rparr>))"
  from Cons.prems have a: "a < max_retries (config sc)"
    and r: "case portal w (lookup_payload g s) a of Failed e \<Rightarrow> True
              | Body h \<Rightarrow> parse_report (bs w) h = None" by auto
  have step: "retry_loop w g s ((a # as) @ rest) sc = retry_loop w g s (as @ rest) ?sc1"
    using a r by (auto simp: fetch_single_report_def Let_def inc_defs split: response.splits)
  have cfg: "config ?sc1 = config sc" by (simp add: inc_defs)
  have "retry_loop w g s (as @ rest) ?sc1 = retry_loop w g s rest
           (?sc1\<lparr>stats := (stats ?sc1)\<lparr>requests_made := requests_made (stats ?sc1) + length as,
                                   retries := retries (stats ?sc1) + length as\<rparr>,
               posts := posts ?sc1 @ replicate (length as) (lookup_payload g s)\<rparr>)"
    by (rule Cons.IH) (use Cons.prems cfg in auto)
  also have "(?sc1\<lparr>stats := (stats ?sc1)\<lparr>requests_made := requests_made (stats ?sc1) + length as,
                                   retries := retries (stats ?sc1) + length as\<rparr>,
               posts := posts ?sc1 @ replicate (length as) (lookup_payload g s)\<rparr>)
      = (sc\<lparr>stats := (stats sc)\<lparr>requests_made := requests_made (stats sc) + length (a # as),
                                   retries := retries (stats sc) + length (a # as)\<rparr>,
               posts := posts sc @ replicate (length (a # as)) (lookup_payload g s)\<rparr>)"
    by (simp add: inc_defs)
  finally show ?case using step by simp
qed


lemma fetch_single_report_state:
  "snd (fetch_single_report w a g s sc) =
     sc\<lparr>stats := (stats sc)\<lparr>requests_made := requests_made (stats sc) + 1\<rparr>,
        posts := posts sc @ [lookup_payload g s]\<rparr>"
  by (simp add: fetch_single_report_def Let_def inc_defs split: response.splits)

lemma retry_loop_shape:
  "\<exists>st m. snd (retry_loop w g s as sc) =
            sc\<lparr>stats := st, posts := posts sc @ replicate m (lookup_payload g s)\<rparr> \<and>
          m \<le> length as \<and> (as \<noteq> [] \<longrightarrow> 1 \<le> m)"
proof (induction as arbitrary: sc)
  case Nil
  show ?case
    by (rule exI [of _ "(stats sc)\<lparr>failed_requests := failed_requests (stats sc) + 1\<rparr>"],
        rule exI [of _ 0]) (simp add: inc_defs)
next
  case (Cons a as)
  obtain res sc1 where f: "fetch_single_report w a g s sc = (res, sc1)" by force
  have sc1: "sc1 = sc\<lparr>stats := (stats sc)\<lparr>requests_made := requests_made (stats sc) + 1\<rparr>,
        posts := posts sc @ [lookup_payload g s]\<rparr>"
    using fetch_single_report_state [of w a g s sc] f by simp
  show ?case
  proof (cases "\<exists>r. res = Inr (Some r)")
    case True
    then obtain r where "res = Inr (Some r)" by blast
    then have "snd (retry_loop w g s (a # as) sc) = inc_successful_requests sc1"
      using f by simp
    then show ?thesis
      by (intro exI [of _ "stats (inc_successful_requests sc1)"] exI [of _ 1])
         (simp add: sc1 inc_defs)
  next
    case False
    define sc2 where "sc2 = (case res of Inl e \<Rightarrow>
        (if a < max_retries (config sc1) then inc_retries sc1 else inc_failed_requests sc1)
      | Inr x \<Rightarrow> (if a < max_retries (config sc1) then inc_retries sc1 else sc1))"
    have step: "retry_loop w g s (a # as) sc = retry_loop w g s as sc2"
      using f False by (auto simp: sc2_def split: sum.splits option.splits)
    have sc2: "\<exists>st2. sc2 = sc\<lparr>stats := st2, posts := posts sc @ [lookup_payload g s]\<rparr>"
      by (rule exI [of _ "stats sc2"]) (auto simp: sc2_def sc1 inc_defs split: sum.splits)
    then obtain st2 where sc2': "sc2 = sc\<lparr>stats := st2, posts := posts sc @ [lookup_payload g s]\<rparr>" ..
    from Cons.IH [of sc2] obtain st m where
      ih: "snd (retry_loop w g s as sc2) =
            sc2\<lparr>stats := st, posts := posts sc2 @ replicate m (lookup_payload g s)\<rparr>"
      and m: "m \<le> length as" by blast
    have "snd (retry_loop w g s (a # as) sc) =
            sc2\<lparr>stats := st, posts := posts sc2 @ replicate m (lookup_payload g s)\<rparr>"
      by (simp only: step ih)
    also have "\<dots> = sc\<lparr>stats := st, posts := posts sc @ replicate (Suc m) (lookup_payload g s)\<rparr>"
      by (simp add: sc2')
    finally show ?thesis
      using m by (intro exI [of _ st] exI [of _ "Suc m"]) simp
  qed
qed

lemma retry_loop_result_indep:
  "fst (retry_loop w g s as sc) = fst (retry_loop w g s as sc')"
proof (induction as arbitrary: sc sc')
  case Nil
  show ?case by simp
next
  case (Cons a as)
  show ?case
  proof (cases "portal w (lookup_payload g s) a")
    case (Failed e)
    then show ?thesis
      using Cons.IH by (simp add: fetch_single_report_def Let_def)
  next
    case (Body h)
    then show ?thesis
      using Cons.IH by (simp add: fetch_single_report_def Let_def split: option.splits)
  qed
qed

lemma fetch_report_with_retry_shape:
  "\<exists>st m. snd (fetch_report_with_retry w g s sc) =
            sc\<lparr>stats := st, posts := posts sc @ replicate m (lookup_payload g s)\<rparr> \<and> 1 \<le> m
          \<and> m \<le> max_retries (config sc) + 1"
  using retry_loop_shape [of w g s "[0..<max_retries (config sc) + 1]" sc]
  by (auto simp: fetch_report_with_retry_def)

lemma fetch_report_with_retry_result_indep:
  "config sc' = config sc \<Longrightarrow>
   fst (fetch_report_with_retry w g s sc') = fst (fetch_report_with_retry w g s sc)"
  using retry_loop_result_indep [of w g s _ sc' sc]
  by (simp add: fetch_report_with_retry_def)


lemma upt_split_at:
  assumes "k \<le> n"
  shows "[0..<n + 1] = [0..<k] @ k # [k + 1..<n + 1]"
proof -
  have "[0..<n + 1] = [0..<k + (n + 1 - k)]" using assms by simp
  also have "\<dots> = [0..<k] @ [k..<k + (n + 1 - k)]" by (rule upt_add_eq_append) simp
  also have "[k..<k + (n + 1 - k)] = k # [k + 1..<n + 1]"
    using assms by (simp add: upt_conv_Cons del: upt_Suc)
  finally show ?thesis .
qed

lemma fetch_report_with_retry_success:
  assumes k: "k \<le> max_retries (config sc)"
    and pre: "\<forall>i<k. case portal w (lookup_payload g s) i of Failed e \<Rightarrow> True
              | Body h \<Rightarrow> parse_report (bs w) h = None"
    and hit: "portal w (lookup_payload g s) k = Body html_content"
    and rep: "parse_report (bs w) html_content = Some r"
  shows "fetch_report_with_retry w g s sc =
           (Some r,
            sc\<lparr>stats := (stats sc)\<lparr>requests_made := requests_made (stats sc) + k + 1,
                                    successful_requests := successful_requests (stats sc) + 1,
                                    retries := retries (stats sc) + k\<rparr>,
               posts := posts sc @ replicate (k + 1) (lookup_payload g s)\<rparr>)"
proof -
  let ?rest = "[k + 1..<max_retries (config sc) + 1]"
  let ?sck = "sc\<lparr>stats := (stats sc)\<lparr>requests_made := requests_made (stats sc) + length [0..<k],
                                   retries := retries (stats sc) + length [0..<k]\<rparr>,
               posts := posts sc @ replicate (length [0..<k]) (lookup_payload g s)\<rparr>"
  have "\<forall>a\<in>set [0..<k]. a < max_retries (config sc) \<and>
             (case portal w (lookup_payload g s) a of Failed e \<Rightarrow> True
              | Body h \<Rightarrow> parse_report (bs w) h = None)"
    using k pre by auto
  then have "retry_loop w g s ([0..<k] @ k # ?rest) sc = retry_loop w g s (k # ?rest) ?sck"
    by (rule retry_loop_prefix)
  also have "\<dots> = (Some r, inc_successful_requests (snd (fetch_single_report w k g s ?sck)))"
    using hit rep by (simp add: fetch_single_report_def Let_def)
  also have "inc_successful_requests (snd (fetch_single_report w k g s ?sck)) =
      sc\<lparr>stats := (stats sc)\<lparr>requests_made := requests_made (stats sc) + k + 1,
                                    successful_requests := successful_requests (stats sc) + 1,
                                    retries := retries (stats sc) + k\<rparr>,
               posts := posts sc @ replicate (k + 1) (lookup_payload g s)\<rparr>"
    by (simp add: fetch_single_report_state inc_defs replicate_append_same)
  finally show ?thesis
    by (simp only: fetch_report_with_retry_def upt_split_at [OF k])
qed

lemma fetch_report_with_retry_nothing:
  assumes all: "\<forall>i\<le>max_retries (config sc). case portal w (lookup_payload g s) i of Failed e \<Rightarrow> True
              | Body h \<Rightarrow> parse_report (bs w) h = None"
  shows "fetch_report_with_retry w g s sc =
           (None,
            sc\<lparr>stats := (stats sc)\<lparr>requests_made := requests_made (stats sc) + max_retries (config sc) + 1,
                    failed_requests := failed_requests (stats sc) +
                       (case portal w (lookup_payload g s) (max_retries (config sc)) of
                          Failed e \<Rightarrow> 2 | Body h \<Rightarrow> 1),
                    retries := retries (stats sc) + max_retries (config sc)\<rparr>,
               posts := posts sc @ replicate (max_retries (config sc) + 1) (lookup_payload g s)\<rparr>)"
proof -
  let ?n = "max_retries (config sc)"
  let ?scn = "sc\<lparr>stats := (stats sc)\<lparr>requests_made := requests_made (stats sc) + length [0..<?n],
                                   retries := retries (stats sc) + length [0..<?n]\<rparr>,
               posts := posts sc @ replicate (length [0..<?n]) (lookup_payload g s)\<rparr>"
  let ?sc1 = "snd (fetch_single_report w ?n g s ?scn)"
  have "\<forall>a\<in>set [0..<?n]. a < max_retries (config sc) \<and>
             (case portal w (lookup_payload g s) a of Failed e \<Rightarrow> True
              | Body h \<Rightarrow> parse_report (bs w) h = None)"
    using all by auto
  then have eq: "retry_loop w g s ([0..<?n] @ [?n]) sc = retry_loop w g s [?n] ?scn"
    by (rule retry_loop_prefix)
  have sp: "[0..<?n + 1] = [0..<?n] @ [?n]" by simp
  from all have last: "case portal w (lookup_payload g s) ?n of Failed e \<Rightarrow> True
              | Body h \<Rightarrow> parse_report (bs w) h = None" by simp
  show ?thesis
  proof (cases "portal w (lookup_payload g s) ?n")
    case (Failed e)
    then have "retry_loop w g s [?n] ?scn = (None, inc_failed_requests (inc_failed_requests ?sc1))"
      by (simp add: fetch_single_report_def Let_def inc_requests_made_def)
    moreover have "inc_failed_requests (inc_failed_requests ?sc1) =
       sc\<lparr>stats := (stats sc)\<lparr>requests_made := requests_made (stats sc) + ?n + 1,
                    failed_requests := failed_requests (stats sc) + 2,
                    retries := retries (stats sc) + ?n\<rparr>,
               posts := posts sc @ replicate (?n + 1) (lookup_payload g s)\<rparr>"
      by (simp add: fetch_single_report_state inc_defs replicate_append_same)
    ultimately show ?thesis
      using Failed by (simp only: fetch_report_with_retry_def sp eq response.case)
  next
    case (Body h)
    with last have "parse_report (bs w) h = None" by simp
    with Body have "retry_loop w g s [?n] ?scn = (None, inc_failed_requests ?sc1)"
      by (simp add: fetch_single_report_def Let_def inc_requests_made_def)
    moreover have "inc_failed_requests ?sc1 =
       sc\<lparr>stats := (stats sc)\<lparr>requests_made := requests_made (stats sc) + ?n + 1,
                    failed_requests := failed_requests (stats sc) + 1,
                    retries := retries (stats sc) + ?n\<rparr>,
               posts := posts sc @ replicate (?n + 1) (lookup_payload g s)\<rparr>"
      by (simp add: fetch_single_report_state inc_defs replicate_append_same)
    ultimately show ?thesis
      using Body by (simp only: fetch_report_with_retry_def sp eq response.case)
  qed
qed


lemma fixture_parse: "parse_report fixture_bs ''<html>report</html>'' = Some fixture_report"
  by (simp add: parser_defs text_defs fixture_defs)


text \<open>
  Claim C3. If the first \<open>k \<le> max_retries\<close> physical attempts of a lookup fail in the
  transport and the next one returns a report, \<^verbatim>\<open>fetch_report_with_retry\<close> returns that
  report, having made \<open>k + 1\<close> requests and counted exactly \<open>k\<close> retries. If every attempt
  fails in the transport, exactly \<open>max_retries + 1\<close> requests are made, \<open>max_retries\<close>
  retries are counted and the result is \<^verbatim>\<open>None\<close>.
\<close>

theorem retry_transient_failures:
  "(k \<le> max_retries (config sc) \<and>
    (\<forall>i<k. \<exists>e. portal w (lookup_payload g s) i = Failed e) \<and>
    portal w (lookup_payload g s) k = Body html_content \<and>
    parse_report (bs w) html_content = Some r \<longrightarrow>
      fst (fetch_report_with_retry w g s sc) = Some r \<and>
      retries (stats (snd (fetch_report_with_retry w g s sc))) = retries (stats sc) + k \<and>
      requests_made (stats (snd (fetch_report_with_retry w g s sc))) =
        requests_made (stats sc) + k + 1 \<and>
      successful_requests (stats (snd (fetch_report_with_retry w g s sc))) =
        successful_requests (stats sc) + 1 \<and>
      failed_requests (stats (snd (fetch_report_with_retry w g s sc))) = failed_requests (stats sc)) \<and>
   ((\<forall>i\<le>max_retries (config sc). \<exists>e. portal w (lookup_payload g s) i = Failed e) \<longrightarrow>
      fst (fetch_report_with_retry w g s sc) = None \<and>
      requests_made (stats (snd (fetch_report_with_retry w g s sc))) =
        requests_made (stats sc) + max_retries (config sc) + 1 \<and>
      retries (stats (snd (fetch_report_with_retry w g s sc))) =
        retries (stats sc) + max_retries (config sc) \<and>
      successful_requests (stats (snd (fetch_report_with_retry w g s sc))) =
        successful_requests (stats sc) \<and>
      posts (snd (fetch_report_with_retry w g s sc)) =
        posts sc @ replicate (max_retries (config sc) + 1) (lookup_payload g s))"
proof (intro conjI impI)
  assume h: "k \<le> max_retries (config sc) \<and>
    (\<forall>i<k. \<exists>e. portal w (lookup_payload g s) i = Failed e) \<and>
    portal w (lookup_payload g s) k = Body html_content \<and>
    parse_report (bs w) html_content = Some r"
  then have pre: "\<forall>i<k. case portal w (lookup_payload g s) i of Failed e \<Rightarrow> True
              | Body h \<Rightarrow> parse_report (bs w) h = None"
    by (auto split: response.splits)
  from h have k: "k \<le> max_retries (config sc)"
    and hit: "portal w (lookup_payload g s) k = Body html_content"
    and rep: "parse_report (bs w) html_content = Some r" by simp_all
  note eq = fetch_report_with_retry_success [OF k pre hit rep]
  show "fst (fetch_report_with_retry w g s sc) = Some r" by (simp add: eq)
  show "retries (stats (snd (fetch_report_with_retry w g s sc))) = retries (stats sc) + k"
    by (simp add: eq)
  show "requests_made (stats (snd (fetch_report_with_retry w g s sc))) =
        requests_made (stats sc) + k + 1" by (simp add: eq)
  show "successful_requests (stats (snd (fetch_report_with_retry w g s sc))) =
        successful_requests (stats sc) + 1" by (simp add: eq)
  show "failed_requests (stats (snd (fetch_report_with_retry w g s sc))) = failed_requests (stats sc)"
    by (simp add: eq)
next
  assume h: "\<forall>i\<le>max_retries (config sc). \<exists>e. portal w (lookup_payload g s) i = Failed e"
  then have "\<forall>i\<le>max_retries (config sc). case portal w (lookup_payload g s) i of Failed e \<Rightarrow> True
              | Body h \<Rightarrow> parse_report (bs w) h = None"
    by (auto split: response.splits)
  note eq = fetch_report_with_retry_nothing [OF this]
  show "fst (fetch_report_with_retry w g s sc) = None" by (simp add: eq)
  show "requests_made (stats (snd (fetch_report_with_retry w g s sc))) =
        requests_made (stats sc) + max_retries (config sc) + 1" by (simp add: eq)
  show "retries (stats (snd (fetch_report_with_retry w g s sc))) =
        retries (stats sc) + max_retries (config sc)" by (simp add: eq)
  show "successful_requests (stats (snd (fetch_report_with_retry w g s sc))) =
        successful_requests (stats sc)" by (simp add: eq)
  show "posts (snd (fetch_report_with_retry w g s sc)) =
        posts sc @ replicate (max_retries (config sc) + 1) (lookup_payload g s)" by (simp add: eq)
qed

theorem retry_transient_failures_witness:
  "((2::nat) \<le> max_retries (config fixture_scraper) \<and>
    portal flaky_world (lookup_payload ''V100003'' 2019) 0 = Failed Timeout \<and>
    portal flaky_world (lookup_payload ''V100003'' 2019) 1 = Failed Timeout \<and>
    portal flaky_world (lookup_payload ''V100003'' 2019) 2 = Body ''<html>report</html>'' \<and>
    parse_report (bs flaky_world) ''<html>report</html>'' = Some fixture_report \<and>
    fst (fetch_report_with_retry flaky_world ''V100003'' 2019 fixture_scraper) = Some fixture_report \<and>
    retries (stats (snd (fetch_report_with_retry flaky_world ''V100003'' 2019 fixture_scraper))) = 2 \<and>
    requests_made (stats (snd (fetch_report_with_retry flaky_world ''V100003'' 2019 fixture_scraper))) = 3) \<and>
   (portal failing_world (lookup_payload ''V100003'' 2019) 0 = Failed Timeout \<and>
    portal failing_world (lookup_payload ''V100003'' 2019) 1 = Failed Timeout \<and>
    portal failing_world (lookup_payload ''V100003'' 2019) 2 = Failed Timeout \<and>
    fst (fetch_report_with_retry failing_world ''V100003'' 2019 fixture_scraper) = None \<and>
    requests_made (stats (snd (fetch_report_with_retry failing_world ''V100003'' 2019 fixture_scraper))) = 3 \<and>
    retries (stats (snd (fetch_report_with_retry failing_world ''V100003'' 2019 fixture_scraper))) = 2)"
proof -
  have a: "(2::nat) \<le> max_retries (config fixture_scraper)"
    by (simp add: fixture_scraper_def AsyncTIMBScraper_init_def)
  have b: "\<forall>i<2. \<exists>e. portal flaky_world (lookup_payload ''V100003'' 2019) i = Failed e"
    by (simp add: flaky_world_def)
  have c: "portal flaky_world (lookup_payload ''V100003'' 2019) 2 = Body ''<html>report</html>''"
    by (simp add: flaky_world_def)
  have d: "parse_report (bs flaky_world) ''<html>report</html>'' = Some fixture_report"
    using fixture_parse by (simp add: flaky_world_def)
  have e: "\<forall>i\<le>max_retries (config fixture_scraper).
        \<exists>e. portal failing_world (lookup_payload ''V100003'' 2019) i = Failed e"
    by (simp add: failing_world_def)
  have z: "retries (stats fixture_scraper) = 0" "requests_made (stats fixture_scraper) = 0"
    "max_retries (config fixture_scraper) = 2"
    by (simp_all add: fixture_scraper_def AsyncTIMBScraper_init_def)
  have f: "portal flaky_world (lookup_payload ''V100003'' 2019) 0 = Failed Timeout"
    "portal flaky_world (lookup_payload ''V100003'' 2019) 1 = Failed Timeout"
    "portal failing_world (lookup_payload ''V100003'' 2019) 0 = Failed Timeout"
    "portal failing_world (lookup_payload ''V100003'' 2019) 1 = Failed Timeout"
    "portal failing_world (lookup_payload ''V100003'' 2019) 2 = Failed Timeout"
    by (simp_all add: flaky_world_def failing_world_def)
  show ?thesis
    using a b c d e z f
      retry_transient_failures [of 2 fixture_scraper flaky_world "''V100003''" 2019
        "''<html>report</html>''" fixture_report]
      retry_transient_failures [of 0 fixture_scraper failing_world "''V100003''" 2019]
    by simp
qed

text \<open>
  Claim C2, as stated, fails: with the configuration of the command (\<open>max_retries = 2\<close>) a
  lookup that the portal answers with its "no record" page at every attempt is posted
  three times, two retries are counted, and the lookup is counted as a failed request.
\<close>

theorem absent_single_attempt_counterexample:
  "portal absent_world (lookup_payload ''V100000'' 2018) 0 = Body ''Please specify the grower number'' \<and>
   parse_report (bs absent_world) ''Please specify the grower number'' = None \<and>
   requests_made (stats fixture_scraper) = 0 \<and>
   requests_made (stats (snd (fetch_report_with_retry absent_world ''V100000'' 2018 fixture_scraper))) = 3 \<and>
   retries (stats (snd (fetch_report_with_retry absent_world ''V100000'' 2018 fixture_scraper))) = 2 \<and>
   failed_requests (stats (snd (fetch_report_with_retry absent_world ''V100000'' 2018 fixture_scraper))) = 1 \<and>
   successful_requests (stats (snd (fetch_report_with_retry absent_world ''V100000'' 2018 fixture_scraper))) = 0"
proof -
  have "\<forall>i\<le>max_retries (config fixture_scraper).
          case portal absent_world (lookup_payload ''V100000'' 2018) i of Failed e \<Rightarrow> True
          | Body h \<Rightarrow> parse_report (bs absent_world) h = None"
    by (simp add: absent_world_def parse_report_def)
  from fetch_report_with_retry_nothing [OF this] show ?thesis
    by (simp add: absent_world_def fixture_scraper_def AsyncTIMBScraper_init_def parse_report_def)
qed

text \<open>
  Claim C2, amended. When the portal answers every attempt of a lookup with the absent
  signal (an empty body or its "no record" page), \<^verbatim>\<open>fetch_report_with_retry\<close> returns
  \<^verbatim>\<open>None\<close> without raising, after \<open>max_retries + 1\<close> physical attempts: the absent result
  is retried like a transient failure, \<open>max_retries\<close> retries are counted, and the lookup is
  counted once as a failed request and not as a successful one.
\<close>

theorem absent_is_retried:
  assumes "\<forall>i\<le>max_retries (config sc). \<exists>h. portal w (lookup_payload g s) i = Body h \<and>
             (h = [] \<or> contains ''Please specify the grower number'' h)"
  shows "fetch_report_with_retry w g s sc =
           (None,
            sc\<lparr>stats := (stats sc)\<lparr>requests_made := requests_made (stats sc) + max_retries (config sc) + 1,
                                    failed_requests := failed_requests (stats sc) + 1,
                                    retries := retries (stats sc) + max_retries (config sc)\<rparr>,
               posts := posts sc @ replicate (max_retries (config sc) + 1) (lookup_payload g s)\<rparr>)"
proof -
  from assms have all: "\<forall>i\<le>max_retries (config sc). case portal w (lookup_payload g s) i of
       Failed e \<Rightarrow> True | Body h \<Rightarrow> parse_report (bs w) h = None"
    by (fastforce simp: parse_report_def split: response.splits)
  from assms obtain h where "portal w (lookup_payload g s) (max_retries (config sc)) = Body h"
    by blast
  with fetch_report_with_retry_nothing [OF all] show ?thesis by simp
qed

theorem absent_is_retried_witness:
  "max_retries (config fixture_scraper) = 2 \<and>
   portal absent_world (lookup_payload ''V100000'' 2018) 0 = Body ''Please specify the grower number'' \<and>
   portal absent_world (lookup_payload ''V100000'' 2018) 1 = Body ''Please specify the grower number'' \<and>
   portal absent_world (lookup_payload ''V100000'' 2018) 2 = Body ''Please specify the grower number'' \<and>
   contains ''Please specify the grower number'' ''Please specify the grower number'' \<and>
   fetch_report_with_retry absent_world ''V100000'' 2018 fixture_scraper =
     (None,
      fixture_scraper\<lparr>stats := (stats fixture_scraper)\<lparr>requests_made := 3, failed_requests := 1,
                                                      retries := 2\<rparr>,
         posts := replicate 3 (lookup_payload ''V100000'' 2018)\<rparr>)"
proof -
  have a: "\<forall>i\<le>max_retries (config fixture_scraper).
      \<exists>h. portal absent_world (lookup_payload ''V100000'' 2018) i = Body h \<and>
          (h = [] \<or> contains ''Please specify the grower number'' h)"
    by (simp add: absent_world_def)
  show ?thesis
    using absent_is_retried [OF a]
    by (simp add: absent_world_def fixture_scraper_def AsyncTIMBScraper_init_def)
qed

text \<open>
  Claim C4 at a failing input: every attempt of the lookup times out, with the
  configuration of the command (\<open>max_retries = 2\<close>). The three attempts are made, the result
  is \<^verbatim>\<open>None\<close>, and the failed-request counter has gone from 0 to 2: once in the
  \<^verbatim>\<open>else\<close> branch of the last attempt and once more after the loop.
\<close>

theorem failed_requests_counted_twice:
  "failed_requests (stats fixture_scraper) = 0 \<and>
   fst (fetch_report_with_retry failing_world ''V100000'' 2018 fixture_scraper) = None \<and>
   requests_made (stats (snd (fetch_report_with_retry failing_world ''V100000'' 2018 fixture_scraper))) = 3 \<and>
   failed_requests (stats (snd (fetch_report_with_retry failing_world ''V100000'' 2018 fixture_scraper))) = 2"
proof -
  have "\<forall>i\<le>max_retries (config fixture_scraper).
          case portal failing_world (lookup_payload ''V100000'' 2018) i of Failed e \<Rightarrow> True
          | Body h \<Rightarrow> parse_report (bs failing_world) h = None"
    by (simp add: failing_world_def)
  from fetch_report_with_retry_nothing [OF this] show ?thesis
    by (simp add: failing_world_def fixture_scraper_def AsyncTIMBScraper_init_def)
qed

section \<open>Properties of the discovery\<close>

lemma season_field_payload [simp]: "season_field (lookup_payload g y) = y"
  by (simp add: lookup_payload_def)

lemma discover_loop_found:
  assumes "\<forall>y\<in>set pre. \<not> has_name (fst (fetch_report_with_retry w g y sc))"
    and "has_name (fst (fetch_report_with_retry w g p sc))"
  shows "\<exists>st ps. discover_loop w g (pre @ p # post) sc =
           (Some \<lparr>grower_id = g, first_season = p,
                  first_report_data = the (fst (fetch_report_with_retry w g p sc))\<rparr>,
            sc\<lparr>stats := st, posts := posts sc @ ps\<rparr>) \<and>
         set ps = lookup_payload g ` (set pre \<union> {p}) \<and>
         (sorted (pre @ [p]) \<longrightarrow> sorted (map season_field ps))"
  using assms
proof (induction pre arbitrary: sc)
  case Nil
  obtain st m where sh: "snd (fetch_report_with_retry w g p sc) =
            sc\<lparr>stats := st, posts := posts sc @ replicate m (lookup_payload g p)\<rparr>" and m: "1 \<le> m"
    using fetch_report_with_retry_shape [of w g p sc] by blast
  obtain rd sc1 where f: "fetch_report_with_retry w g p sc = (rd, sc1)" by force
  with sh have sc1: "sc1 = sc\<lparr>stats := st, posts := posts sc @ replicate m (lookup_payload g p)\<rparr>"
    by simp
  from Nil f have hn: "has_name rd" by simp
  let ?ps = "replicate m (lookup_payload g p)"
  have rd: "rd = fst (fetch_report_with_retry w g p sc)" using f by simp
  have "discover_loop w g ([] @ p # post) sc =
      (Some \<lparr>grower_id = g, first_season = p, first_report_data = the rd\<rparr>,
       inc_growers_discovered sc1)"
    using f hn by simp
  moreover have "inc_growers_discovered sc1 =
      sc\<lparr>stats := stats (inc_growers_discovered sc1), posts := posts sc @ ?ps\<rparr>"
    by (simp add: sc1 inc_defs)
  ultimately have res: "discover_loop w g ([] @ p # post) sc =
      (Some \<lparr>grower_id = g, first_season = p,
             first_report_data = the (fst (fetch_report_with_retry w g p sc))\<rparr>,
       sc\<lparr>stats := stats (inc_growers_discovered sc1), posts := posts sc @ ?ps\<rparr>)"
    by (simp only: rd)
  have "set ?ps = lookup_payload g ` (set [] \<union> {p})"
    using m by auto
  moreover have "sorted ([] @ [p]) \<longrightarrow> sorted (map season_field ?ps)"
    by (simp add: sorted_replicate)
  ultimately show ?case
    using res by blast
next
  case (Cons y pre)
  obtain st m where sh: "snd (fetch_report_with_retry w g y sc) =
            sc\<lparr>stats := st, posts := posts sc @ replicate m (lookup_payload g y)\<rparr>" and m: "1 \<le> m"
    using fetch_report_with_retry_shape [of w g y sc] by blast
  obtain rd sc1 where f: "fetch_report_with_retry w g y sc = (rd, sc1)" by force
  with sh have sc1: "sc1 = sc\<lparr>stats := st, posts := posts sc @ replicate m (lookup_payload g y)\<rparr>"
    by simp
  then have cfg: "config sc1 = config sc" by simp
  from Cons.prems f have nn: "\<not> has_name rd" by simp
  have step: "discover_loop w g ((y # pre) @ p # post) sc = discover_loop w g (pre @ p # post) sc1"
    using f nn by simp
  have ind: "\<And>z. fst (fetch_report_with_retry w g z sc1) = fst (fetch_report_with_retry w g z sc)"
    by (rule fetch_report_with_retry_result_indep [OF cfg])
  from Cons.IH [of sc1] Cons.prems obtain st' ps where
    ih: "discover_loop w g (pre @ p # post) sc1 =
           (Some \<lparr>grower_id = g, first_season = p,
                  first_report_data = the (fst (fetch_report_with_retry w g p sc))\<rparr>,
            sc1\<lparr>stats := st', posts := posts sc1 @ ps\<rparr>)"
    and ps: "set ps = lookup_payload g ` (set pre \<union> {p})"
    and so: "sorted (pre @ [p]) \<longrightarrow> sorted (map season_field ps)"
    by (auto simp: ind)
  let ?ps = "replicate m (lookup_payload g y) @ ps"
  have eq: "sc1\<lparr>stats := st', posts := posts sc1 @ ps\<rparr> = sc\<lparr>stats := st', posts := posts sc @ ?ps\<rparr>"
    by (simp add: sc1)
  have res: "discover_loop w g ((y # pre) @ p # post) sc =
           (Some \<lparr>grower_id = g, first_season = p,
                  first_report_data = the (fst (fetch_report_with_retry w g p sc))\<rparr>,
            sc\<lparr>stats := st', posts := posts sc @ ?ps\<rparr>)"
    by (simp only: step ih eq)
  have "set ?ps = lookup_payload g ` (set (y # pre) \<union> {p})"
    using m ps by auto
  moreover have "sorted ((y # pre) @ [p]) \<longrightarrow> sorted (map season_field ?ps)"
    using so ps by (auto simp: sorted_append image_Un)
  ultimately show ?case
    using res by blast
qed


lemma discover_loop_exhausted:
  assumes "\<forall>y\<in>set ys. \<not> has_name (fst (fetch_report_with_retry w g y sc))"
  shows "\<exists>st ps. discover_loop w g ys sc = (None, sc\<lparr>stats := st, posts := posts sc @ ps\<rparr>) \<and>
         set ps = lookup_payload g ` set ys \<and>
         (sorted ys \<longrightarrow> sorted (map season_field ps))"
  using assms
proof (induction ys arbitrary: sc)
  case Nil
  have "discover_loop w g [] sc = (None, sc\<lparr>stats := stats sc, posts := posts sc @ []\<rparr>)"
    by simp
  then show ?case by (intro exI [of _ "stats sc"] exI [of _ "[]"]) simp
next
  case (Cons y ys)
  obtain st m where sh: "snd (fetch_report_with_retry w g y sc) =
            sc\<lparr>stats := st, posts := posts sc @ replicate m (lookup_payload g y)\<rparr>" and m: "1 \<le> m"
    using fetch_report_with_retry_shape [of w g y sc] by blast
  obtain rd sc1 where f: "fetch_report_with_retry w g y sc = (rd, sc1)" by force
  with sh have sc1: "sc1 = sc\<lparr>stats := st, posts := posts sc @ replicate m (lookup_payload g y)\<rparr>"
    by simp
  then have cfg: "config sc1 = config sc" by simp
  from Cons.prems f have nn: "\<not> has_name rd" by simp
  have step: "discover_loop w g (y # ys) sc = discover_loop w g ys sc1"
    using f nn by simp
  have ind: "\<And>z. fst (fetch_report_with_retry w g z sc1) = fst (fetch_report_with_retry w g z sc)"
    by (rule fetch_report_with_retry_result_indep [OF cfg])
  from Cons.IH [of sc1] Cons.prems obtain st' ps where
    ih: "discover_loop w g ys sc1 = (None, sc1\<lparr>stats := st', posts := posts sc1 @ ps\<rparr>)"
    and ps: "set ps = lookup_payload g ` set ys"
    and so: "sorted ys \<longrightarrow> sorted (map season_field ps)"
    by (auto simp: ind)
  let ?ps = "replicate m (lookup_payload g y) @ ps"
  have eq: "sc1\<lparr>stats := st', posts := posts sc1 @ ps\<rparr> = sc\<lparr>stats := st', posts := posts sc @ ?ps\<rparr>"
    by (simp add: sc1)
  have res: "discover_loop w g (y # ys) sc = (None, sc\<lparr>stats := st', posts := posts sc @ ?ps\<rparr>)"
    by (simp only: step ih eq)
  have "set ?ps = lookup_payload g ` set (y # ys)"
    using m ps by auto
  moreover have "sorted (y # ys) \<longrightarrow> sorted (map season_field ?ps)"
    using so ps by (auto simp: sorted_append image_Un)
  ultimately show ?case
    using res by blast
qed

lemma threaded_payload:
  "g \<noteq> [] \<Longrightarrow>
   \<lparr>deleteprefix = [hd g], deletegnumber = tl g, deletesuffix = [], season_field = y\<rparr> =
     lookup_payload g y"
  by (cases g) (auto simp: lookup_payload_def)

lemma fetch_report_threaded_indep:
  "fst (fetch_report_threaded w g y sc') = fst (fetch_report_threaded w g y sc)"
  by (simp add: fetch_report_threaded_def Let_def split: response.splits sum.splits option.splits)

lemma fetch_report_threaded_returns:
  assumes "fst (fetch_report_threaded w g y sc) = Inr rd"
  shows "t_posts (snd (fetch_report_threaded w g y sc)) = t_posts sc @ [lookup_payload g y]"
proof -
  from assms have g: "g \<noteq> []" by (auto simp: fetch_report_threaded_def)
  note pl = threaded_payload [OF g, of y]
  show ?thesis
    using g
    by (auto simp: fetch_report_threaded_def Let_def pl
        split: response.splits sum.splits option.splits)
qed

lemma discover_loop_threaded_found:
  assumes "\<forall>y\<in>set pre. \<exists>rd. fst (fetch_report_threaded w g y sc) = Inr rd \<and> \<not> has_name rd"
    and "fst (fetch_report_threaded w g p sc) = Inr rd" and "has_name rd"
  shows "fst (discover_loop_threaded w g (pre @ p # post) sc) = Inr (Some (g, p, the rd)) \<and>
         t_posts (snd (discover_loop_threaded w g (pre @ p # post) sc)) =
           t_posts sc @ map (lookup_payload g) (pre @ [p])"
  using assms
proof (induction pre arbitrary: sc)
  case Nil
  obtain sc1 where f: "fetch_report_threaded w g p sc = (Inr rd, sc1)"
    using Nil(2) by (cases "fetch_report_threaded w g p sc") simp
  have "t_posts sc1 = t_posts sc @ [lookup_payload g p]"
    using fetch_report_threaded_returns [OF Nil(2)] f by simp
  then show ?case using f Nil(3) by simp
next
  case (Cons y pre)
  from Cons.prems(1) obtain r0 where r0: "fst (fetch_report_threaded w g y sc) = Inr r0" "\<not> has_name r0"
    by auto
  obtain sc1 where f: "fetch_report_threaded w g y sc = (Inr r0, sc1)"
    using r0(1) by (cases "fetch_report_threaded w g y sc") simp
  have p1: "t_posts sc1 = t_posts sc @ [lookup_payload g y]"
    using fetch_report_threaded_returns [OF r0(1)] f by simp
  have step: "discover_loop_threaded w g ((y # pre) @ p # post) sc =
      discover_loop_threaded w g (pre @ p # post) sc1"
    using f r0(2) by simp
  have a: "\<forall>y\<in>set pre. \<exists>rd. fst (fetch_report_threaded w g y sc1) = Inr rd \<and> \<not> has_name rd"
    using Cons.prems(1) by (simp add: fetch_report_threaded_indep [of w g _ sc1 sc])
  have b: "fst (fetch_report_threaded w g p sc1) = Inr rd"
    using Cons.prems(2) by (simp add: fetch_report_threaded_indep [of w g _ sc1 sc])
  from Cons.IH [OF a b Cons.prems(3)] show ?case unfolding step by (simp add: p1)
qed

lemma discover_loop_threaded_exhausted:
  assumes "\<forall>y\<in>set ys. \<exists>rd. fst (fetch_report_threaded w g y sc) = Inr rd \<and> \<not> has_name rd"
  shows "fst (discover_loop_threaded w g ys sc) = Inr None \<and>
         t_posts (snd (discover_loop_threaded w g ys sc)) = t_posts sc @ map (lookup_payload g) ys"
  using assms
proof (induction ys arbitrary: sc)
  case Nil
  show ?case by simp
next
  case (Cons y ys)
  from Cons.prems(1) obtain r0 where r0: "fst (fetch_report_threaded w g y sc) = Inr r0" "\<not> has_name r0"
    by auto
  obtain sc1 where f: "fetch_report_threaded w g y sc = (Inr r0, sc1)"
    using r0(1) by (cases "fetch_report_threaded w g y sc") simp
  have p1: "t_posts sc1 = t_posts sc @ [lookup_payload g y]"
    using fetch_report_threaded_returns [OF r0(1)] f by simp
  have step: "discover_loop_threaded w g (y # ys) sc = discover_loop_threaded w g ys sc1"
    using f r0(2) by simp
  have a: "\<forall>y\<in>set ys. \<exists>rd. fst (fetch_report_threaded w g y sc1) = Inr rd \<and> \<not> has_name rd"
    using Cons.prems(1) by (simp add: fetch_report_threaded_indep [of w g _ sc1 sc])
  from Cons.IH [OF a] show ?case unfolding step by (simp add: p1)
qed

lemma discover_loop_threaded_raised:
  assumes "\<forall>y\<in>set pre. \<exists>rd. fst (fetch_report_threaded w g y sc) = Inr rd \<and> \<not> has_name rd"
    and "fst (fetch_report_threaded w g q sc) = Inl e"
  shows "fst (discover_loop_threaded w g (pre @ q # post) sc) = Inl e"
  using assms
proof (induction pre arbitrary: sc)
  case Nil
  obtain sc1 where f: "fetch_report_threaded w g q sc = (Inl e, sc1)"
    using Nil(2) by (cases "fetch_report_threaded w g q sc") simp
  then show ?case by simp
next
  case (Cons y pre)
  from Cons.prems(1) obtain r0 where r0: "fst (fetch_report_threaded w g y sc) = Inr r0" "\<not> has_name r0"
    by auto
  obtain sc1 where f: "fetch_report_threaded w g y sc = (Inr r0, sc1)"
    using r0(1) by (cases "fetch_report_threaded w g y sc") simp
  have step: "discover_loop_threaded w g ((y # pre) @ q # post) sc =
      discover_loop_threaded w g (pre @ q # post) sc1"
    using f r0(2) by simp
  have a: "\<forall>y\<in>set pre. \<exists>rd. fst (fetch_report_threaded w g y sc1) = Inr rd \<and> \<not> has_name rd"
    using Cons.prems(1) by (simp add: fetch_report_threaded_indep [of w g _ sc1 sc])
  have b: "fst (fetch_report_threaded w g q sc1) = Inl e"
    using Cons.prems(2) by (simp add: fetch_report_threaded_indep [of w g _ sc1 sc])
  from Cons.IH [OF a b] show ?case unfolding step .
qed


lemma has_name_fixture: "has_name (Some fixture_report)"
  by (simp add: has_name_def fixture_report_def dict_get_default_def text_defs)

lemma absent_parse_sync: "parse_report_sync b ''Please specify the grower number'' = Inr None"
  by (simp add: parse_report_sync_def)

lemma plain_parse_sync:
  "parse_report_sync (bs plain_world) ''<html>report</html>'' = Inr (Some fixture_report)"
  by (simp add: parse_report_sync_def parser_defs text_defs key_sync_def plain_world_def
      plain_soup_def plain_cell_def fixture_report_def)

lemma colon_parse_sync:
  "parse_report_sync fixture_bs ''<html>report</html>'' =
     Inr (Some (fixture_report\<lparr>grower_info := [(''grower_number:'', ''V100003''), (''name:'', ''TENDAI'')]\<rparr>))"
  by (simp add: parse_report_sync_def parser_defs text_defs key_sync_def fixture_defs)

lemma plain_lookup_100003:
  "fst (fetch_report_threaded plain_world ''V100003'' y sc) =
     (if 2019 \<le> y then Inr (Some fixture_report) else Inr None)"
proof -
  have p: "portal plain_world \<lparr>deleteprefix = ''V'', deletegnumber = ''100003'', deletesuffix = [],
                               season_field = y\<rparr> 0 =
      (if 2019 \<le> y then Body ''<html>report</html>'' else Body ''Please specify the grower number'')"
    by (simp add: plain_world_def)
  show ?thesis
    using plain_parse_sync
    by (simp add: fetch_report_threaded_def Let_def p absent_parse_sync)
qed

lemma plain_lookup_100002:
  "fst (fetch_report_threaded plain_world ''V100002'' y sc) =
     (if 2019 \<le> y then Inr (Some fixture_report) else Inl ParserError)"
proof -
  have p: "portal plain_world \<lparr>deleteprefix = ''V'', deletegnumber = ''100002'', deletesuffix = [],
                               season_field = y\<rparr> 0 =
      (if 2019 \<le> y then Body ''<html>report</html>'' else Body ''<html>broken</html>'')"
    by (simp add: plain_world_def)
  have b: "parse_report_sync (bs plain_world) ''<html>broken</html>'' = Inl ParserError"
    by (simp add: parse_report_sync_def plain_world_def)
  show ?thesis
    using plain_parse_sync
    by (simp add: fetch_report_threaded_def Let_def p b)
qed

lemma colon_lookup_100003:
  "fst (fetch_report_threaded fixture_world ''V100003'' y sc) =
     (if 2019 \<le> y
      then Inr (Some (fixture_report\<lparr>grower_info := [(''grower_number:'', ''V100003''), (''name:'', ''TENDAI'')]\<rparr>))
      else Inr None)"
proof -
  have p: "portal fixture_world \<lparr>deleteprefix = ''V'', deletegnumber = ''100003'', deletesuffix = [],
                                 season_field = y\<rparr> 0 =
      (if 2019 \<le> y then Body ''<html>report</html>'' else Body ''Please specify the grower number'')"
    by (simp add: fixture_world_def)
  have b: "bs fixture_world = fixture_bs" by (simp add: fixture_world_def)
  show ?thesis
    using colon_parse_sync
    by (simp add: fetch_report_threaded_def Let_def p b absent_parse_sync)
qed

text \<open>
  Claim C1, as written, at the threaded scraper. For V100002 the lookup of 2018 gives no
  report (the parser rejects the page, and \<^verbatim>\<open>parse_report\<close> of the threaded scraper lets
  the exception through) and the lookup of 2019 gives a report with a name, so 2019 is the
  smallest period whose lookup yields a named report. The discovery does not return it: it
  ends with the exception of 2018, and the pool, which catches it, has no result for the
  identifier.
\<close>

theorem threaded_discovery_counterexample:
  "fst (fetch_report_threaded plain_world ''V100002'' 2018 fixture_threaded_scraper) = Inl ParserError \<and>
   fst (fetch_report_threaded plain_world ''V100002'' 2019 fixture_threaded_scraper) =
     Inr (Some fixture_report) \<and>
   has_name (Some fixture_report) \<and>
   fst (discover_grower_first_season_threaded plain_world ''V100002'' fixture_threaded_scraper) =
     Inl ParserError \<and>
   fst (discover_growers_threaded plain_world [''V100002''] fixture_threaded_scraper) = []"
proof -
  have a: "fst (fetch_report_threaded plain_world ''V100002'' 2018 fixture_threaded_scraper) =
      Inl ParserError"
    by (simp add: plain_lookup_100002)
  have b: "fst (fetch_report_threaded plain_world ''V100002'' 2019 fixture_threaded_scraper) =
      Inr (Some fixture_report)"
    by (simp add: plain_lookup_100002)
  have "[2018..2025] = [] @ 2018 # [2019..2025::int]" by (simp add: upto_rec1)
  then have c: "fst (discover_grower_first_season_threaded plain_world ''V100002''
      fixture_threaded_scraper) = Inl ParserError"
    unfolding discover_grower_first_season_threaded_def
    using discover_loop_threaded_raised [of "[]" plain_world "''V100002''" fixture_threaded_scraper
        2018 ParserError "[2019..2025]"] a
    by simp
  have d: "fst (discover_growers_threaded plain_world [''V100002''] fixture_threaded_scraper) = []"
    using c by (simp add: split_beta)
  from a b c d has_name_fixture show ?thesis by simp
qed

text \<open>
  Claim C1, amended. Both scrapers probe the periods of an identifier in ascending order from
  2018. For \<^verbatim>\<open>AsyncTIMBScraper.discover_grower_first_season\<close>: if \<open>p\<close> is the smallest
  period of \<open>[start_year, current_year]\<close> whose lookup (the retry-wrapped fetch) returns a
  report with a name, the result is the discovery result with \<open>first_season = p\<close> and that
  report, and the requests posted are for this identifier and the periods
  \<open>start_year..p\<close>, in ascending order, none beyond \<open>p\<close>; if no period of the range has
  such a report the result is \<^verbatim>\<open>None\<close>, after every period of the range was probed in
  ascending order. For \<^verbatim>\<open>ThreadedTIMBScraper.discover_grower_first_season\<close>, whose lookup
  is one \<^verbatim>\<open>fetch_report\<close> read by its own parser: the same holds, with one request for
  each of the periods \<open>2018..p\<close>, as long as every lookup before \<open>p\<close> returns; when the
  first lookup that does not return a report without a name raises, the discovery raises
  the same exception and the pool has no result for the identifier.
\<close>

theorem discovery_first_period:
  "((start_year sc \<le> p \<and> p \<le> current_year sc \<and>
    has_name (fst (fetch_report_with_retry w g p sc)) \<and>
    (\<forall>y. start_year sc \<le> y \<and> y < p \<longrightarrow> \<not> has_name (fst (fetch_report_with_retry w g y sc))) \<longrightarrow>
      (\<exists>r ps. fst (discover_grower_first_season w g sc) =
                 Some \<lparr>grower_id = g, first_season = p, first_report_data = r\<rparr> \<and>
               fst (fetch_report_with_retry w g p sc) = Some r \<and>
               posts (snd (discover_grower_first_season w g sc)) = posts sc @ ps \<and>
               sorted (map season_field ps) \<and>
               set ps = lookup_payload g ` {start_year sc..p})) \<and>
   ((\<forall>y. start_year sc \<le> y \<and> y \<le> current_year sc \<longrightarrow>
         \<not> has_name (fst (fetch_report_with_retry w g y sc))) \<longrightarrow>
      fst (discover_grower_first_season w g sc) = None \<and>
      (\<exists>ps. posts (snd (discover_grower_first_season w g sc)) = posts sc @ ps \<and>
            sorted (map season_field ps) \<and>
            set ps = lookup_payload g ` {start_year sc..current_year sc}))) \<and>
   ((2018 \<le> tp \<and> tp \<le> 2025 \<and>
    fst (fetch_report_threaded w g tp tsc) = Inr (Some tr) \<and> has_name (Some tr) \<and>
    (\<forall>y. 2018 \<le> y \<and> y < tp \<longrightarrow>
         (\<exists>rd. fst (fetch_report_threaded w g y tsc) = Inr rd \<and> \<not> has_name rd)) \<longrightarrow>
      fst (discover_grower_first_season_threaded w g tsc) = Inr (Some (g, tp, tr)) \<and>
      t_posts (snd (discover_grower_first_season_threaded w g tsc)) =
        t_posts tsc @ map (lookup_payload g) [2018..tp]) \<and>
   ((\<forall>y. 2018 \<le> y \<and> y \<le> 2025 \<longrightarrow>
         (\<exists>rd. fst (fetch_report_threaded w g y tsc) = Inr rd \<and> \<not> has_name rd)) \<longrightarrow>
      fst (discover_grower_first_season_threaded w g tsc) = Inr None \<and>
      t_posts (snd (discover_grower_first_season_threaded w g tsc)) =
        t_posts tsc @ map (lookup_payload g) [2018..2025]) \<and>
   (2018 \<le> q \<and> q \<le> 2025 \<and> fst (fetch_report_threaded w g q tsc) = Inl e \<and>
    (\<forall>y. 2018 \<le> y \<and> y < q \<longrightarrow>
         (\<exists>rd. fst (fetch_report_threaded w g y tsc) = Inr rd \<and> \<not> has_name rd)) \<longrightarrow>
      fst (discover_grower_first_season_threaded w g tsc) = Inl e \<and>
      fst (discover_growers_threaded w [g] tsc) = []))"
  (is "?async \<and> ?threaded")
proof (rule conjI)
  show ?async
  proof (intro conjI impI)
    assume h: "start_year sc \<le> p \<and> p \<le> current_year sc \<and>
      has_name (fst (fetch_report_with_retry w g p sc)) \<and>
      (\<forall>y. start_year sc \<le> y \<and> y < p \<longrightarrow> \<not> has_name (fst (fetch_report_with_retry w g y sc)))"
    then have sp: "[start_year sc..current_year sc] = [start_year sc..p - 1] @ p # [p + 1..current_year sc]"
      by (intro upto_split3) simp_all
    from h have pre: "\<forall>y\<in>set [start_year sc..p - 1]. \<not> has_name (fst (fetch_report_with_retry w g y sc))"
      by auto
    from h have hit: "has_name (fst (fetch_report_with_retry w g p sc))" by simp
    from discover_loop_found [OF pre hit, of "[p + 1..current_year sc]"] obtain st ps where
      d: "discover_loop w g ([start_year sc..p - 1] @ p # [p + 1..current_year sc]) sc =
             (Some \<lparr>grower_id = g, first_season = p,
                    first_report_data = the (fst (fetch_report_with_retry w g p sc))\<rparr>,
              sc\<lparr>stats := st, posts := posts sc @ ps\<rparr>)"
      and ps: "set ps = lookup_payload g ` (set [start_year sc..p - 1] \<union> {p})"
      and so: "sorted ([start_year sc..p - 1] @ [p]) \<longrightarrow> sorted (map season_field ps)"
      by blast
    have "[start_year sc..p - 1] @ [p] = [start_year sc..p]"
      using h by (simp add: upto_rec2)
    then have so': "sorted (map season_field ps)" using so by simp
    have set: "set [start_year sc..p - 1] \<union> {p} = {start_year sc..p}"
      using h by auto
    from hit obtain r where r: "fst (fetch_report_with_retry w g p sc) = Some r"
      by (auto simp: has_name_def split: option.splits)
    show "\<exists>r ps. fst (discover_grower_first_season w g sc) =
                   Some \<lparr>grower_id = g, first_season = p, first_report_data = r\<rparr> \<and>
                 fst (fetch_report_with_retry w g p sc) = Some r \<and>
                 posts (snd (discover_grower_first_season w g sc)) = posts sc @ ps \<and>
                 sorted (map season_field ps) \<and>
                 set ps = lookup_payload g ` {start_year sc..p}"
      using ps unfolding set
      by (intro exI [of _ r] exI [of _ ps])
         (simp add: discover_grower_first_season_def sp d r so')
  next
    assume h: "\<forall>y. start_year sc \<le> y \<and> y \<le> current_year sc \<longrightarrow>
           \<not> has_name (fst (fetch_report_with_retry w g y sc))"
    then have "\<forall>y\<in>set [start_year sc..current_year sc].
        \<not> has_name (fst (fetch_report_with_retry w g y sc))" by simp
    from discover_loop_exhausted [OF this] obtain st ps where
      d: "discover_loop w g [start_year sc..current_year sc] sc =
            (None, sc\<lparr>stats := st, posts := posts sc @ ps\<rparr>)"
      and ps: "set ps = lookup_payload g ` set [start_year sc..current_year sc]"
      and so: "sorted [start_year sc..current_year sc] \<longrightarrow> sorted (map season_field ps)"
      by blast
    show "fst (discover_grower_first_season w g sc) = None"
      by (simp add: discover_grower_first_season_def d)
    show "\<exists>ps. posts (snd (discover_grower_first_season w g sc)) = posts sc @ ps \<and>
              sorted (map season_field ps) \<and>
              set ps = lookup_payload g ` {start_year sc..current_year sc}"
      using ps so by (intro exI [of _ ps]) (simp add: discover_grower_first_season_def d)
  qed
next
  show ?threaded
  proof (intro conjI impI)
    assume h: "2018 \<le> tp \<and> tp \<le> 2025 \<and>
      fst (fetch_report_threaded w g tp tsc) = Inr (Some tr) \<and> has_name (Some tr) \<and>
      (\<forall>y. 2018 \<le> y \<and> y < tp \<longrightarrow>
         (\<exists>rd. fst (fetch_report_threaded w g y tsc) = Inr rd \<and> \<not> has_name rd))"
    then have sp: "[2018..2025] = [2018..tp - 1] @ tp # [tp + 1..2025]"
      by (intro upto_split3) simp_all
    from h have pre: "\<forall>y\<in>set [2018..tp - 1].
        \<exists>rd. fst (fetch_report_threaded w g y tsc) = Inr rd \<and> \<not> has_name rd" by auto
    from h have hit: "fst (fetch_report_threaded w g tp tsc) = Inr (Some tr)"
      and hn: "has_name (Some tr)" by simp_all
    have up: "[2018..tp - 1] @ [tp] = [2018..tp]"
      using h by (simp add: upto_rec2)
    note d = discover_loop_threaded_found [OF pre hit hn, of "[tp + 1..2025]", unfolded up]
    show "fst (discover_grower_first_season_threaded w g tsc) = Inr (Some (g, tp, tr))"
      unfolding discover_grower_first_season_threaded_def sp using d by simp
    show "t_posts (snd (discover_grower_first_season_threaded w g tsc)) =
        t_posts tsc @ map (lookup_payload g) [2018..tp]"
      unfolding discover_grower_first_season_threaded_def sp using d by simp
  next
    assume h: "\<forall>y. 2018 \<le> y \<and> y \<le> 2025 \<longrightarrow>
         (\<exists>rd. fst (fetch_report_threaded w g y tsc) = Inr rd \<and> \<not> has_name rd)"
    then have "\<forall>y\<in>set [2018..2025].
        \<exists>rd. fst (fetch_report_threaded w g y tsc) = Inr rd \<and> \<not> has_name rd"
      by (simp del: upto.simps upto_rec_numeral)
    note d = discover_loop_threaded_exhausted [OF this]
    show "fst (discover_grower_first_season_threaded w g tsc) = Inr None"
      unfolding discover_grower_first_season_threaded_def using d by (rule conjunct1)
    show "t_posts (snd (discover_grower_first_season_threaded w g tsc)) =
        t_posts tsc @ map (lookup_payload g) [2018..2025]"
      unfolding discover_grower_first_season_threaded_def using d by (rule conjunct2)
  next
    assume h: "2018 \<le> q \<and> q \<le> 2025 \<and> fst (fetch_report_threaded w g q tsc) = Inl e \<and>
      (\<forall>y. 2018 \<le> y \<and> y < q \<longrightarrow>
         (\<exists>rd. fst (fetch_report_threaded w g y tsc) = Inr rd \<and> \<not> has_name rd))"
    then have sp: "[2018..2025] = [2018..q - 1] @ q # [q + 1..2025]"
      by (intro upto_split3) simp_all
    from h have pre: "\<forall>y\<in>set [2018..q - 1].
        \<exists>rd. fst (fetch_report_threaded w g y tsc) = Inr rd \<and> \<not> has_name rd" by auto
    from h have hit: "fst (fetch_report_threaded w g q tsc) = Inl e" by simp
    note d = discover_loop_threaded_raised [OF pre hit, of "[q + 1..2025]"]
    show r: "fst (discover_grower_first_season_threaded w g tsc) = Inl e"
      unfolding discover_grower_first_season_threaded_def sp using d .
    show "fst (discover_growers_threaded w [g] tsc) = []"
      using r by (simp add: split_beta)
  qed
qed

theorem discovery_first_period_witness:
  "fst (fetch_report_with_retry fixture_world ''V100003'' 2018 fixture_scraper) = None \<and>
   fst (fetch_report_with_retry fixture_world ''V100003'' 2019 fixture_scraper) = Some fixture_report \<and>
   fst (discover_grower_first_season fixture_world ''V100003'' fixture_scraper) =
     Some \<lparr>grower_id = ''V100003'', first_season = 2019, first_report_data = fixture_report\<rparr> \<and>
   fst (discover_grower_first_season fixture_world ''V100001'' fixture_scraper) = None \<and>
   fst (fetch_report_threaded plain_world ''V100003'' 2018 fixture_threaded_scraper) = Inr None \<and>
   fst (fetch_report_threaded plain_world ''V100003'' 2019 fixture_threaded_scraper) =
     Inr (Some fixture_report) \<and>
   fst (discover_grower_first_season_threaded plain_world ''V100003'' fixture_threaded_scraper) =
     Inr (Some (''V100003'', 2019, fixture_report)) \<and>
   t_posts (snd (discover_grower_first_season_threaded plain_world ''V100003'' fixture_threaded_scraper)) =
     [lookup_payload ''V100003'' 2018, lookup_payload ''V100003'' 2019] \<and>
   fst (fetch_report_threaded fixture_world ''V100003'' 2019 fixture_threaded_scraper) =
     Inr (Some (fixture_report\<lparr>grower_info := [(''grower_number:'', ''V100003''), (''name:'', ''TENDAI'')]\<rparr>)) \<and>
   fst (discover_grower_first_season_threaded fixture_world ''V100003'' fixture_threaded_scraper) =
     Inr None \<and>
   fst (discover_grower_first_season_threaded plain_world ''V100002'' fixture_threaded_scraper) =
     Inl ParserError"
proof -
  have yrs: "start_year fixture_scraper = 2018" "current_year fixture_scraper = 2025"
    by (simp_all add: fixture_defs)
  have absent: "fst (fetch_report_with_retry fixture_world g y fixture_scraper) = None"
    if "g \<noteq> ''V100003'' \<or> y < 2019" for g y
  proof -
    have "\<forall>i\<le>max_retries (config fixture_scraper).
          case portal fixture_world (lookup_payload g y) i of Failed e \<Rightarrow> True
          | Body h \<Rightarrow> parse_report (bs fixture_world) h = None"
      using that by (cases g) (auto simp: fixture_world_def lookup_payload_def parse_report_def)
    from fetch_report_with_retry_nothing [OF this] show ?thesis by simp
  qed
  have present: "fst (fetch_report_with_retry fixture_world ''V100003'' 2019 fixture_scraper) =
      Some fixture_report"
  proof -
    have "portal fixture_world (lookup_payload ''V100003'' 2019) 0 = Body ''<html>report</html>''"
      by (simp add: fixture_world_def lookup_payload_def)
    moreover have "parse_report (bs fixture_world) ''<html>report</html>'' = Some fixture_report"
      using fixture_parse by (simp add: fixture_world_def)
    ultimately show ?thesis
      using fetch_report_with_retry_success [of 0 fixture_scraper fixture_world "''V100003''" 2019]
      by simp
  qed
  have a: "fst (fetch_report_with_retry fixture_world ''V100003'' 2018 fixture_scraper) = None"
    by (rule absent) simp
  have b: "\<forall>y. start_year fixture_scraper \<le> y \<and> y < 2019 \<longrightarrow>
       \<not> has_name (fst (fetch_report_with_retry fixture_world ''V100003'' y fixture_scraper))"
    using absent by (simp add: has_name_def)
  have c: "\<forall>y. start_year fixture_scraper \<le> y \<and> y \<le> current_year fixture_scraper \<longrightarrow>
         \<not> has_name (fst (fetch_report_with_retry fixture_world ''V100001'' y fixture_scraper))"
    using absent by (simp add: has_name_def)
  have hn: "has_name (fst (fetch_report_with_retry fixture_world ''V100003'' 2019 fixture_scraper))"
    using present has_name_fixture by simp
  have w1: "fst (discover_grower_first_season fixture_world ''V100003'' fixture_scraper) =
     Some \<lparr>grower_id = ''V100003'', first_season = 2019, first_report_data = fixture_report\<rparr>"
    using discovery_first_period [where sc = fixture_scraper and p = 2019 and w = fixture_world
        and g = "''V100003''", THEN conjunct1, THEN conjunct1] b hn present yrs
    by auto
  have w2: "fst (discover_grower_first_season fixture_world ''V100001'' fixture_scraper) = None"
    using discovery_first_period [where sc = fixture_scraper and w = fixture_world
        and g = "''V100001''", THEN conjunct1, THEN conjunct2] c
    by simp
  let ?T = fixture_threaded_scraper
  have t0: "\<forall>y. 2018 \<le> y \<and> y < 2019 \<longrightarrow>
      (\<exists>rd. fst (fetch_report_threaded plain_world ''V100003'' y ?T) = Inr rd \<and> \<not> has_name rd)"
    by (simp add: plain_lookup_100003 has_name_def)
  have t1: "fst (fetch_report_threaded plain_world ''V100003'' 2019 ?T) = Inr (Some fixture_report)"
    by (simp add: plain_lookup_100003)
  have w3: "fst (discover_grower_first_season_threaded plain_world ''V100003'' ?T) =
        Inr (Some (''V100003'', 2019, fixture_report)) \<and>
      t_posts (snd (discover_grower_first_season_threaded plain_world ''V100003'' ?T)) =
        t_posts ?T @ map (lookup_payload ''V100003'') [2018..2019]"
    using discovery_first_period [where w = plain_world and g = "''V100003''" and tsc = ?T
        and tp = 2019 and tr = fixture_report, THEN conjunct2, THEN conjunct1]
      t0 t1 has_name_fixture
    by simp
  have colon: "\<not> has_name (Some (fixture_report\<lparr>grower_info :=
      [(''grower_number:'', ''V100003''), (''name:'', ''TENDAI'')]\<rparr>))"
    by (simp add: has_name_def dict_get_default_def text_defs)
  have t2: "\<forall>y. 2018 \<le> y \<and> y \<le> 2025 \<longrightarrow>
      (\<exists>rd. fst (fetch_report_threaded fixture_world ''V100003'' y ?T) = Inr rd \<and> \<not> has_name rd)"
    using colon by (simp add: colon_lookup_100003 has_name_def)
  have w4: "fst (discover_grower_first_season_threaded fixture_world ''V100003'' ?T) = Inr None"
    using discovery_first_period [where w = fixture_world and g = "''V100003''" and tsc = ?T,
        THEN conjunct2, THEN conjunct2, THEN conjunct1] t2
    by simp
  have t3: "fst (fetch_report_threaded plain_world ''V100002'' 2018 ?T) = Inl ParserError"
    by (simp add: plain_lookup_100002)
  have w5: "fst (discover_grower_first_season_threaded plain_world ''V100002'' ?T) = Inl ParserError"
    using discovery_first_period [where w = plain_world and g = "''V100002''" and tsc = ?T
        and q = 2018 and e = ParserError, THEN conjunct2, THEN conjunct2, THEN conjunct2] t3
    by auto
  have ps: "t_posts ?T @ map (lookup_payload ''V100003'') [2018..2019] =
      [lookup_payload ''V100003'' 2018, lookup_payload ''V100003'' 2019]"
    by (simp add: fixture_threaded_scraper_def ThreadedTIMBScraper_init_def upto_rec1)
  show ?thesis
    using a present w1 w2 w3 w4 w5 t1 ps
    by (simp add: plain_lookup_100003 colon_lookup_100003)
qed

section \<open>Properties of the store\<close>

lemma report_exists_keys: "report_exists db n s \<longleftrightarrow> (n, s) \<in> set (report_keys db)"
  by (auto simp: report_exists_def report_keys_def list_ex_iff)

lemma store_le_refl [simp]: "store_le db db"
  by (simp add: store_le_def)

lemma store_le_trans: "store_le a b \<Longrightarrow> store_le b c \<Longrightarrow> store_le a c"
  by (auto simp: store_le_def)


lemma insert_seasonal_data_Inr:
  assumes "insert_seasonal_data db n s rd = Inr db'"
  shows "growers db' = growers db" and "report_keys db' = report_keys db @ [(n, s)]"
    and "grower_row_ok db' = grower_row_ok db" and "name_row_ok db' = name_row_ok db"
    and "report_row_ok db' = report_row_ok db"
  using assms
  by (auto simp: insert_seasonal_data_def get_or_create_contractor_def seasonal_report_row_def
      report_keys_def Let_def split: if_splits option.splits)

lemma create_seasonal_data_Inr:
  assumes "create_seasonal_data db g s rd = Inr db'"
  shows "growers db' = growers db"
    and "set (report_keys db') = insert (grower_number g, s) (set (report_keys db))"
    and "distinct (report_keys db) \<Longrightarrow> distinct (report_keys db')"
    and "store_le db db'"
proof -
  show "growers db' = growers db"
    using assms insert_seasonal_data_Inr(1)
    by (auto simp: create_seasonal_data_def split: if_splits)
  show k: "set (report_keys db') = insert (grower_number g, s) (set (report_keys db))"
    using assms insert_seasonal_data_Inr(2) [of db "grower_number g" s rd db']
    by (auto simp: create_seasonal_data_def report_exists_keys split: if_splits)
  show "distinct (report_keys db')" if "distinct (report_keys db)"
    using that assms insert_seasonal_data_Inr(2) [of db "grower_number g" s rd db']
    by (auto simp: create_seasonal_data_def report_exists_keys split: if_splits)
  show "store_le db db'"
    using assms k insert_seasonal_data_Inr [of db "grower_number g" s rd db']
    by (auto simp: create_seasonal_data_def store_le_def split: if_splits)
qed




lemma get_or_create_grower_Inl:
  assumes "get_or_create_grower rd db = Inl e"
  shows "report_number rd \<notin> grower_numbers db"
  using assms
  by (auto simp: get_or_create_grower_def Let_def grower_numbers_def report_number_def
      find_None_iff split: option.splits)








lemma save_seasonal_results_props:
  "store_le db (snd (save_seasonal_results g rs db)) \<and>
   (distinct (report_keys db) \<longrightarrow> distinct (report_keys (snd (save_seasonal_results g rs db)))) \<and>
   set (report_keys (snd (save_seasonal_results g rs db))) \<subseteq>
     set (report_keys db) \<union> {grower_number g} \<times> UNIV"
proof (induction rs arbitrary: db)
  case Nil
  show ?case by simp
next
  case (Cons x rs)
  obtain gid s rd where x: "x = (gid, s, rd)" by (cases x)
  show ?case
  proof (cases "create_seasonal_data db g s rd")
    case (Inl e)
    then have "save_seasonal_results g (x # rs) db = save_seasonal_results g rs db"
      by (simp add: x)
    then show ?thesis using Cons.IH [of db] by simp
  next
    case (Inr db1)
    then have step: "snd (save_seasonal_results g (x # rs) db) =
        snd (save_seasonal_results g rs db1)"
      by (simp add: x split_beta)
    note q = create_seasonal_data_Inr [OF Inr]
    note ih = Cons.IH [of db1]
    have "store_le db (snd (save_seasonal_results g rs db1))"
      using q(4) ih store_le_trans by blast
    moreover have "distinct (report_keys db) \<longrightarrow>
        distinct (report_keys (snd (save_seasonal_results g rs db1)))"
      using q(3) ih by blast
    moreover have "set (report_keys (snd (save_seasonal_results g rs db1))) \<subseteq>
        set (report_keys db) \<union> {grower_number g} \<times> UNIV"
      using q(2) ih by auto
    ultimately show ?thesis unfolding step by simp
  qed
qed


lemma get_grower_by_id_Some: "get_grower_by_id db g = Some gr \<Longrightarrow> grower_number gr = g"
  by (auto simp: get_grower_by_id_def find_Some_iff)


lemma set_seasons_to_fetch: "set (seasons_to_fetch db g f) = missing_seasons db g f"
  by (auto simp: seasons_to_fetch_def missing_seasons_def get_existing_seasons_for_grower_def
      report_keys_def image_iff)

lemma lookup_payload_inj:
  "lookup_payload g s = lookup_payload g' s' \<longleftrightarrow> g = g' \<and> s = s'"
proof
  assume h: "lookup_payload g s = lookup_payload g' s'"
  have r: "deleteprefix (lookup_payload x y) @ deletegnumber (lookup_payload x y) = x" for x y
    by (cases x) (auto simp: lookup_payload_def)
  from h have "g = g'" using r [of g s] r [of g' s'] by simp
  moreover from h have "s = s'" by (simp add: lookup_payload_def)
  ultimately show "g = g' \<and> s = s'" ..
qed simp








lemma discover_loop_grower_id:
  "fst (discover_loop w g ys sc) = Some r \<Longrightarrow> grower_id r = g"
proof (induction ys arbitrary: sc)
  case Nil
  then show ?case by simp
next
  case (Cons y ys)
  obtain rd sc1 where f: "fetch_report_with_retry w g y sc = (rd, sc1)" by force
  show ?case
  proof (cases "has_name rd")
    case True
    with f Cons.prems show ?thesis by auto
  next
    case False
    with f Cons.prems have "fst (discover_loop w g ys sc1) = Some r" by simp
    then show ?thesis by (rule Cons.IH)
  qed
qed

lemma discover_grower_id:
  "fst (discover_grower_first_season w g sc) = Some r \<Longrightarrow> grower_id r = g"
  by (simp add: discover_grower_first_season_def discover_loop_grower_id)






section \<open>Properties of the full-history stage\<close>

lemma gather_fetch_posts:
  "\<exists>st ps. snd (gather (fetch_with_metadata w) (map (Pair g) ss) sc) =
            sc\<lparr>stats := st, posts := posts sc @ ps\<rparr> \<and>
          set ps = lookup_payload g ` set ss"
proof (induction ss arbitrary: sc)
  case Nil
  show ?case by (intro exI [of _ "stats sc"] exI [of _ "[]"]) simp
next
  case (Cons y ss)
  obtain st m where sh: "snd (fetch_report_with_retry w g y sc) =
            sc\<lparr>stats := st, posts := posts sc @ replicate m (lookup_payload g y)\<rparr>" and m: "1 \<le> m"
    using fetch_report_with_retry_shape [of w g y sc] by blast
  obtain rd sc1 where f: "fetch_report_with_retry w g y sc = (rd, sc1)" by force
  with sh have sc1: "sc1 = sc\<lparr>stats := st, posts := posts sc @ replicate m (lookup_payload g y)\<rparr>"
    by simp
  from Cons.IH [of sc1] obtain st' ps where
    ih: "snd (gather (fetch_with_metadata w) (map (Pair g) ss) sc1) =
            sc1\<lparr>stats := st', posts := posts sc1 @ ps\<rparr>"
    and ps: "set ps = lookup_payload g ` set ss" by blast
  let ?ps = "replicate m (lookup_payload g y) @ ps"
  have "snd (gather (fetch_with_metadata w) (map (Pair g) (y # ss)) sc) =
        snd (gather (fetch_with_metadata w) (map (Pair g) ss) sc1)"
    using f by (simp add: fetch_with_metadata_def split: prod.splits)
  also have "\<dots> = sc1\<lparr>stats := st', posts := posts sc1 @ ps\<rparr>"
    by (simp only: ih)
  also have "\<dots> = sc\<lparr>stats := st', posts := posts sc @ ?ps\<rparr>"
    by (simp add: sc1)
  finally have res: "snd (gather (fetch_with_metadata w) (map (Pair g) (y # ss)) sc) =
      sc\<lparr>stats := st', posts := posts sc @ ?ps\<rparr>" .
  have "set ?ps = lookup_payload g ` set (y # ss)" using m ps by auto
  with res show ?case by blast
qed

lemma missing_seasons_rows:
  "missing_seasons db g f =
     {f + 1..2025} - season_year ` {x \<in> set (seasonal_reports db). sr_grower x = g}"
  by (auto simp: missing_seasons_def report_keys_def image_iff)

lemma missing_seasons_frame:
  assumes "set (report_keys db) \<subseteq> set (report_keys db1)"
    and "set (report_keys db1) \<subseteq> set (report_keys db) \<union> {g} \<times> UNIV"
    and "g' \<noteq> g"
  shows "missing_seasons db1 g' f = missing_seasons db g' f"
  using assms by (auto simp: missing_seasons_def)

lemma per_identifier:
  assumes "inj_on gid (set rs)"
    and "set ps = (\<Union>r\<in>set rs. lookup_payload (gid r) ` M r)"
    and "r \<in> set rs"
  shows "{s. lookup_payload (gid r) s \<in> set ps} = M r"
proof
  show "M r \<subseteq> {s. lookup_payload (gid r) s \<in> set ps}"
    using assms(2,3) by auto
  show "{s. lookup_payload (gid r) s \<in> set ps} \<subseteq> M r"
  proof
    fix s assume "s \<in> {s. lookup_payload (gid r) s \<in> set ps}"
    then obtain r' s' where r': "r' \<in> set rs" "s' \<in> M r'"
      "lookup_payload (gid r) s = lookup_payload (gid r') s'"
      using assms(2) by auto
    then have "gid r = gid r'" "s = s'" by (simp_all add: lookup_payload_inj)
    with assms(1,3) r'(1) have "r' = r" by (auto dest: inj_onD)
    with r'(2) \<open>s = s'\<close> show "s \<in> M r" by simp
  qed
qed

lemma fetch_all_seasons_for_result_posts:
  "\<exists>ps. posts (fst (snd (fetch_all_seasons_for_result w r (sc, db)))) = posts sc @ ps \<and>
        set ps = lookup_payload (grower_id r) ` missing_seasons db (grower_id r) (first_season r)"
proof -
  let ?g = "grower_id r"
  let ?ss = "seasons_to_fetch db ?g (first_season r)"
  from gather_fetch_posts [of w ?g ?ss sc] obtain st ps where
    g: "snd (gather (fetch_with_metadata w) (map (Pair ?g) ?ss) sc) =
            sc\<lparr>stats := st, posts := posts sc @ ps\<rparr>"
    and ps: "set ps = lookup_payload ?g ` set ?ss" by blast
  show ?thesis
  proof (cases "?ss = []")
    case True
    then have "missing_seasons db ?g (first_season r) = {}"
      using set_seasons_to_fetch [of db ?g "first_season r"] by simp
    with True show ?thesis
      by (intro exI [of _ "[]"]) (simp add: fetch_all_seasons_for_result_def)
  next
    case False
    have "posts (fst (snd (fetch_all_seasons_for_result w r (sc, db)))) =
          posts (snd (gather (fetch_with_metadata w) (map (Pair ?g) ?ss) sc))"
      using False
      by (simp add: fetch_all_seasons_for_result_def fetch_multiple_reports_def Let_def
          split: prod.splits option.splits)
    then show ?thesis
      using ps by (intro exI [of _ ps]) (simp add: g set_seasons_to_fetch)
  qed
qed

lemma fetch_all_seasons_for_result_keys:
  "set (report_keys db) \<subseteq> set (report_keys (snd (snd (fetch_all_seasons_for_result w r (sc, db))))) \<and>
   set (report_keys (snd (snd (fetch_all_seasons_for_result w r (sc, db))))) \<subseteq>
     set (report_keys db) \<union> {grower_id r} \<times> UNIV"
proof (cases "get_grower_by_id db (grower_id r)")
  case None
  then have "snd (snd (fetch_all_seasons_for_result w r (sc, db))) = db"
    by (simp add: fetch_all_seasons_for_result_def Let_def split_beta)
  then show ?thesis by simp
next
  case (Some gr)
  note n = get_grower_by_id_Some [OF Some]
  let ?res = "fst (fetch_multiple_reports w
      (map (Pair (grower_id r)) (seasons_to_fetch db (grower_id r) (first_season r))) sc)"
  have "snd (snd (fetch_all_seasons_for_result w r (sc, db))) = db \<or>
      snd (snd (fetch_all_seasons_for_result w r (sc, db))) = snd (save_seasonal_results gr ?res db)"
    using Some by (simp add: fetch_all_seasons_for_result_def Let_def split_beta)
  then show ?thesis
    using save_seasonal_results_props [of db gr ?res] n
    by (auto simp: store_le_def)
qed

lemma fetch_all_posts:
  assumes "distinct (map grower_id rs)"
  shows "\<exists>ps. posts (fst (snd (fetch_all_seasons_for_discovered_growers w rs (sc, db)))) =
              posts sc @ ps \<and>
            set ps = (\<Union>r\<in>set rs. lookup_payload (grower_id r) `
                        missing_seasons db (grower_id r) (first_season r))"
  using assms
proof (induction rs arbitrary: sc db)
  case Nil
  show ?case by simp
next
  case (Cons r rs)
  obtain n1 sc1 db1 where one: "fetch_all_seasons_for_result w r (sc, db) = (n1, sc1, db1)"
    by (metis prod_cases3)
  from fetch_all_seasons_for_result_posts [of w r sc db] one obtain ps1 where
    p1: "posts sc1 = posts sc @ ps1"
    and s1: "set ps1 = lookup_payload (grower_id r) ` missing_seasons db (grower_id r) (first_season r)"
    by auto
  from fetch_all_seasons_for_result_keys [of db w r sc] one have
    k: "set (report_keys db) \<subseteq> set (report_keys db1)"
       "set (report_keys db1) \<subseteq> set (report_keys db) \<union> {grower_id r} \<times> UNIV"
    by simp_all
  from Cons.prems have d: "distinct (map grower_id rs)" by simp
  from Cons.IH [OF d, of sc1 db1] obtain ps2 where
    p2: "posts (fst (snd (fetch_all_seasons_for_discovered_growers w rs (sc1, db1)))) = posts sc1 @ ps2"
    and s2: "set ps2 = (\<Union>r\<in>set rs. lookup_payload (grower_id r) `
                        missing_seasons db1 (grower_id r) (first_season r))"
    by blast
  have fr: "missing_seasons db1 (grower_id r') (first_season r') =
      missing_seasons db (grower_id r') (first_season r')" if "r' \<in> set rs" for r'
  proof -
    from that Cons.prems have "grower_id r' \<noteq> grower_id r" by (force simp: image_iff)
    with k show ?thesis by (rule missing_seasons_frame)
  qed
  have "posts (fst (snd (fetch_all_seasons_for_discovered_growers w (r # rs) (sc, db)))) =
      posts sc @ (ps1 @ ps2)"
    using one p1 p2 by (simp add: split_beta)
  moreover have "set (ps1 @ ps2) = (\<Union>r\<in>set (r # rs). lookup_payload (grower_id r) `
                        missing_seasons db (grower_id r) (first_season r))"
    using s1 s2 fr by auto
  ultimately show ?case by blast
qed

lemma fetch_report_threaded_posts:
  "g \<noteq> [] \<Longrightarrow> t_posts (snd (fetch_report_threaded w g y sc)) = t_posts sc @ [lookup_payload g y]"
  using threaded_payload [of g y]
  by (auto simp: fetch_report_threaded_def Let_def split: response.splits sum.splits option.splits)

lemma fetch_multiple_reports_threaded_posts:
  "g \<noteq> [] \<Longrightarrow>
   t_posts (snd (fetch_multiple_reports_threaded w (map (Pair g) ss) sc)) =
     t_posts sc @ map (lookup_payload g) ss"
proof (induction ss arbitrary: sc)
  case Nil
  show ?case by simp
next
  case (Cons y ss)
  obtain res sc1 where f: "fetch_report_threaded w g y sc = (res, sc1)" by force
  then have "t_posts sc1 = t_posts sc @ [lookup_payload g y]"
    using fetch_report_threaded_posts [OF Cons.prems, of w y sc] by simp
  then show ?case using f Cons.IH [OF Cons.prems, of sc1] by (simp add: split_beta)
qed

lemma fetch_remaining_seasons_for_posts:
  assumes "g \<noteq> []"
  shows "\<exists>ps. t_posts (fst (snd (fetch_remaining_seasons_for w (g, f, rd) (sc, db)))) = t_posts sc @ ps \<and>
            set ps = lookup_payload g ` missing_seasons db g f"
proof -
  let ?ss = "seasons_to_fetch db g f"
  note m = fetch_multiple_reports_threaded_posts [OF assms, of w ?ss sc]
  show ?thesis
  proof (cases "?ss = []")
    case True
    then have "missing_seasons db g f = {}"
      using set_seasons_to_fetch [of db g f] by simp
    with True show ?thesis
      by (intro exI [of _ "[]"]) (simp add: fetch_remaining_seasons_for_def)
  next
    case False
    have "t_posts (fst (snd (fetch_remaining_seasons_for w (g, f, rd) (sc, db)))) =
          t_posts (snd (fetch_multiple_reports_threaded w (map (Pair g) ?ss) sc))"
      using False
      by (simp add: fetch_remaining_seasons_for_def Let_def split: prod.splits option.splits)
    then show ?thesis
      using m set_seasons_to_fetch [of db g f]
      by (intro exI [of _ "map (lookup_payload g) ?ss"]) simp
  qed
qed

lemma fetch_remaining_seasons_for_keys:
  "set (report_keys db) \<subseteq> set (report_keys (snd (snd (fetch_remaining_seasons_for w (g, f, rd) (sc, db))))) \<and>
   set (report_keys (snd (snd (fetch_remaining_seasons_for w (g, f, rd) (sc, db))))) \<subseteq>
     set (report_keys db) \<union> {g} \<times> UNIV"
proof (cases "get_grower_by_id db g")
  case None
  then have "snd (snd (fetch_remaining_seasons_for w (g, f, rd) (sc, db))) = db"
    by (simp add: fetch_remaining_seasons_for_def Let_def split_beta)
  then show ?thesis by simp
next
  case (Some gr)
  note n = get_grower_by_id_Some [OF Some]
  let ?res = "fst (fetch_multiple_reports_threaded w (map (Pair g) (seasons_to_fetch db g f)) sc)"
  have "snd (snd (fetch_remaining_seasons_for w (g, f, rd) (sc, db))) = db \<or>
      snd (snd (fetch_remaining_seasons_for w (g, f, rd) (sc, db))) =
        snd (save_seasonal_results gr ?res db)"
    using Some by (simp add: fetch_remaining_seasons_for_def Let_def split_beta)
  then show ?thesis
    using save_seasonal_results_props [of db gr ?res] n
    by (auto simp: store_le_def)
qed

lemma fetch_remaining_posts:
  assumes "distinct (map fst ds)" and "[] \<notin> fst ` set ds"
  shows "\<exists>ps. t_posts (fst (snd (fetch_remaining_seasons w ds (sc, db)))) = t_posts sc @ ps \<and>
            set ps = (\<Union>d\<in>set ds. lookup_payload (fst d) ` missing_seasons db (fst d) (fst (snd d)))"
  using assms
proof (induction ds arbitrary: sc db)
  case Nil
  show ?case by simp
next
  case (Cons d ds)
  obtain g f rd where d: "d = (g, f, rd)" by (cases d)
  from Cons.prems(2) d have g: "g \<noteq> []" by auto
  obtain n1 sc1 db1 where one: "fetch_remaining_seasons_for w (g, f, rd) (sc, db) = (n1, sc1, db1)"
    by (metis prod_cases3)
  from fetch_remaining_seasons_for_posts [OF g, of w f rd sc db] one obtain ps1 where
    p1: "t_posts sc1 = t_posts sc @ ps1"
    and s1: "set ps1 = lookup_payload g ` missing_seasons db g f"
    by auto
  from fetch_remaining_seasons_for_keys [of db w g f rd sc] one have
    k: "set (report_keys db) \<subseteq> set (report_keys db1)"
       "set (report_keys db1) \<subseteq> set (report_keys db) \<union> {g} \<times> UNIV"
    by simp_all
  from Cons.prems have dd: "distinct (map fst ds)" "[] \<notin> fst ` set ds" by simp_all
  from Cons.IH [OF dd, of sc1 db1] obtain ps2 where
    p2: "t_posts (fst (snd (fetch_remaining_seasons w ds (sc1, db1)))) = t_posts sc1 @ ps2"
    and s2: "set ps2 = (\<Union>d\<in>set ds. lookup_payload (fst d) ` missing_seasons db1 (fst d) (fst (snd d)))"
    by blast
  have fr: "missing_seasons db1 (fst d') (fst (snd d')) = missing_seasons db (fst d') (fst (snd d'))"
    if "d' \<in> set ds" for d'
  proof -
    from that Cons.prems(1) d have "fst d' \<noteq> g" by (force simp: image_iff)
    with k show ?thesis by (rule missing_seasons_frame)
  qed
  have "t_posts (fst (snd (fetch_remaining_seasons w (d # ds) (sc, db)))) = t_posts sc @ (ps1 @ ps2)"
    using one p1 p2 d by (simp add: split_beta)
  moreover have "set (ps1 @ ps2) =
      (\<Union>d\<in>set (d # ds). lookup_payload (fst d) ` missing_seasons db (fst d) (fst (snd d)))"
    using s1 s2 fr d by auto
  ultimately show ?case by blast
qed

lemma upt_0_10: "[0..<10] = [0, 1, 2, 3, 4, 5, 6, 7, 8, 9::nat]"
  by (simp add: upt_rec)

lemma digit_val_nth: "n < 10 \<Longrightarrow> digit_val (''0123456789'' ! n) = n"
proof -
  assume "n < 10"
  then have "n \<in> set [0..<10]" by simp
  then show ?thesis unfolding upt_0_10 by (auto simp: digit_val_def)
qed

lemma digit_nth_not_minus: "n < 10 \<Longrightarrow> ''0123456789'' ! n \<noteq> CHR ''-''"
proof -
  assume "n < 10"
  then have "n \<in> set [0..<10]" by simp
  then show ?thesis unfolding upt_0_10 by auto
qed

lemma digits_value_snoc: "digits_value (ds @ [c]) = 10 * digits_value ds + digit_val c"
  by (simp add: digits_value_def)

lemma digits_value_digits_of_nat: "digits_value (digits_of_nat n) = n"
proof (induction n rule: digits_of_nat.induct)
  case (1 n)
  show ?case
  proof (cases "n < 10")
    case True
    then have "digits_of_nat n = [''0123456789'' ! n]" by (subst digits_of_nat.simps) simp
    then show ?thesis using digit_val_nth [OF True] digits_value_snoc [of "[]"]
      by (simp add: digits_value_def)
  next
    case False
    then have e: "digits_of_nat n = digits_of_nat (n div 10) @ [''0123456789'' ! (n mod 10)]"
      by (subst digits_of_nat.simps) simp
    have "digit_val (''0123456789'' ! (n mod 10)) = n mod 10"
      by (rule digit_val_nth) simp
    then show ?thesis
      using 1 [OF False] by (simp add: e digits_value_snoc)
  qed
qed

lemma hd_digits_of_nat: "digits_of_nat n \<noteq> [] \<and> hd (digits_of_nat n) \<noteq> CHR ''-''"
proof (induction n rule: digits_of_nat.induct)
  case (1 n)
  show ?case
  proof (cases "n < 10")
    case True
    then have "digits_of_nat n = [''0123456789'' ! n]" by (subst digits_of_nat.simps) simp
    then show ?thesis using digit_nth_not_minus [OF True] by simp
  next
    case False
    then have e: "digits_of_nat n = digits_of_nat (n div 10) @ [''0123456789'' ! (n mod 10)]"
      by (subst digits_of_nat.simps) simp
    show ?thesis using 1 [OF False] by (simp add: e)
  qed
qed

lemma grower_id_of_inj: "grower_id_of i = grower_id_of j \<longleftrightarrow> i = j"
proof
  assume h: "grower_id_of i = grower_id_of j"
  then have s: "str_int i = str_int j" by (simp add: grower_id_of_def)
  show "i = j"
  proof (cases "i < 0"; cases "j < 0")
    assume a: "i < 0" "j < 0"
    with s have "digits_of_nat (nat (- i)) = digits_of_nat (nat (- j))" by (simp add: str_int_def)
    then have "nat (- i) = nat (- j)" using digits_value_digits_of_nat by metis
    with a show ?thesis by simp
  next
    assume a: "i < 0" "\<not> j < 0"
    with s have "CHR ''-'' # digits_of_nat (nat (- i)) = digits_of_nat (nat j)"
      by (simp add: str_int_def)
    then have "hd (digits_of_nat (nat j)) = CHR ''-''" by (metis list.sel(1))
    then show ?thesis using hd_digits_of_nat by blast
  next
    assume a: "\<not> i < 0" "j < 0"
    with s have "digits_of_nat (nat i) = CHR ''-'' # digits_of_nat (nat (- j))"
      by (simp add: str_int_def)
    then have "hd (digits_of_nat (nat i)) = CHR ''-''" by (metis list.sel(1))
    then show ?thesis using hd_digits_of_nat by blast
  next
    assume a: "\<not> i < 0" "\<not> j < 0"
    with s have "digits_of_nat (nat i) = digits_of_nat (nat j)" by (simp add: str_int_def)
    then have "nat i = nat j" using digits_value_digits_of_nat by metis
    with a show ?thesis by simp
  qed
qed simp

lemma distinct_batch_ids: "distinct (filter P (map grower_id_of [a..b]))"
  by (intro distinct_filter) (simp add: distinct_map inj_on_def grower_id_of_inj)

lemma gather_discover_ids:
  "distinct ids \<Longrightarrow>
   distinct (map grower_id (List.map_filter (\<lambda>r. r) (fst (gather (discover_grower_first_season w) ids sc)))) \<and>
   grower_id ` set (List.map_filter (\<lambda>r. r) (fst (gather (discover_grower_first_season w) ids sc)))
     \<subseteq> set ids"
proof (induction ids arbitrary: sc)
  case Nil
  show ?case by (simp add: List.map_filter_simps)
next
  case (Cons g ids)
  obtain r sc1 where d: "discover_grower_first_season w g sc = (r, sc1)" by force
  have gid: "grower_id x = g" if "r = Some x" for x
    using discover_grower_id [of w g sc x] d that by simp
  from Cons.prems have di: "distinct ids" and ni: "g \<notin> set ids" by simp_all
  note ih = Cons.IH [OF di, of sc1]
  show ?case
    using d ih ni gid
    by (cases r) (auto simp: split_beta List.map_filter_simps)
qed

lemma discover_growers_batch_distinct:
  "distinct ids \<Longrightarrow> distinct (map grower_id (fst (discover_growers_batch w ids sc)))"
  using gather_discover_ids [of ids w sc] by (simp add: discover_growers_batch_def split_beta)

lemma discover_loop_threaded_id:
  "fst (discover_loop_threaded w g ys sc) = Inr (Some d) \<Longrightarrow> fst d = g"
proof (induction ys arbitrary: sc)
  case Nil
  then show ?case by simp
next
  case (Cons y ys)
  obtain res sc1 where f: "fetch_report_threaded w g y sc = (res, sc1)" by force
  show ?case
  proof (cases res)
    case (Inl e)
    with f Cons.prems show ?thesis by simp
  next
    case (Inr rd)
    show ?thesis
    proof (cases "has_name rd")
      case True
      with f Inr Cons.prems show ?thesis by auto
    next
      case False
      with f Inr Cons.prems have "fst (discover_loop_threaded w g ys sc1) = Inr (Some d)" by simp
      then show ?thesis by (rule Cons.IH)
    qed
  qed
qed

lemma discover_growers_threaded_ids:
  "distinct ids \<Longrightarrow>
   distinct (map fst (fst (discover_growers_threaded w ids sc))) \<and>
   fst ` set (fst (discover_growers_threaded w ids sc)) \<subseteq> set ids"
proof (induction ids arbitrary: sc)
  case Nil
  show ?case by simp
next
  case (Cons g ids)
  obtain res sc1 where d: "discover_grower_first_season_threaded w g sc = (res, sc1)" by force
  have gid: "fst x = g" if "res = Inr (Some x)" for x
    using discover_loop_threaded_id [of w g "[2018..2025]" sc x] d that
    by (simp add: discover_grower_first_season_threaded_def)
  from Cons.prems have di: "distinct ids" and ni: "g \<notin> set ids" by simp_all
  note ih = Cons.IH [OF di, of sc1]
  show ?case
    using d ih ni gid
    by (auto simp: split_beta split: sum.splits option.splits)
qed

text \<open>
  Claim C6. In the full-history stage of the async command
  (\<^verbatim>\<open>fetch_all_seasons_for_discovered_growers\<close>) and of the threaded command
  (\<^verbatim>\<open>fetch_remaining_seasons\<close>), for a list of discovered identifiers without repetition:
  the periods requested for an identifier with the first period \<open>f\<close> are exactly those of
  \<open>{f+1, ..., 2025}\<close> for which the store, as it is when the stage begins, has no report
  of that identifier, and every request of the stage is for one of the discovered
  identifiers. The list that a batch passes to the stage has no repetition and, in the
  threaded command, no empty identifier (for which \<^verbatim>\<open>fetch_report\<close> raises before it
  posts). 2025 is the \<open>current_year\<close> of the scraper.
\<close>

theorem missing_periods_fetched:
  "(distinct (map grower_id results) \<longrightarrow>
      (\<exists>ps. posts (fst (snd (fetch_all_seasons_for_discovered_growers w results (sc, db)))) =
              posts sc @ ps \<and>
            (\<forall>r\<in>set results.
               {s. lookup_payload (grower_id r) s \<in> set ps} =
                 {first_season r + 1..2025} -
                 season_year ` {x \<in> set (seasonal_reports db). sr_grower x = grower_id r}) \<and>
            (\<forall>p\<in>set ps. \<exists>r\<in>set results. \<exists>s. p = lookup_payload (grower_id r) s))) \<and>
   (distinct (map fst discovered) \<and> [] \<notin> fst ` set discovered \<longrightarrow>
      (\<exists>ps. t_posts (fst (snd (fetch_remaining_seasons w discovered (tsc, db)))) = t_posts tsc @ ps \<and>
            (\<forall>d\<in>set discovered.
               {s. lookup_payload (fst d) s \<in> set ps} =
                 {fst (snd d) + 1..2025} -
                 season_year ` {x \<in> set (seasonal_reports db). sr_grower x = fst d}) \<and>
            (\<forall>p\<in>set ps. \<exists>d\<in>set discovered. \<exists>s. p = lookup_payload (fst d) s))) \<and>
   distinct (map grower_id
      (fst (discover_growers_batch w (filter keep (map grower_id_of [start_id..end_id])) sc))) \<and>
   distinct (map fst
      (fst (discover_growers_threaded w (filter keep (map grower_id_of [start_id..end_id])) tsc))) \<and>
   [] \<notin> fst ` set
      (fst (discover_growers_threaded w (filter keep (map grower_id_of [start_id..end_id])) tsc)) \<and>
   current_year (AsyncTIMBScraper_init user pass cfg) = 2025"
proof (intro conjI impI)
  assume d: "distinct (map grower_id results)"
  from fetch_all_posts [OF d, of w sc db] obtain ps where
    p: "posts (fst (snd (fetch_all_seasons_for_discovered_growers w results (sc, db)))) = posts sc @ ps"
    and s: "set ps = (\<Union>r\<in>set results. lookup_payload (grower_id r) `
                        missing_seasons db (grower_id r) (first_season r))"
    by blast
  from d have inj: "inj_on grower_id (set results)" by (simp add: distinct_map)
  have a: "\<forall>r\<in>set results.
      {s. lookup_payload (grower_id r) s \<in> set ps} =
        {first_season r + 1..2025} -
        season_year ` {x \<in> set (seasonal_reports db). sr_grower x = grower_id r}"
    using per_identifier [OF inj s] by (simp add: missing_seasons_rows)
  have b: "\<forall>p\<in>set ps. \<exists>r\<in>set results. \<exists>s. p = lookup_payload (grower_id r) s"
    using s by auto
  from p a b show "\<exists>ps. posts (fst (snd (fetch_all_seasons_for_discovered_growers w results (sc, db)))) =
              posts sc @ ps \<and>
            (\<forall>r\<in>set results.
               {s. lookup_payload (grower_id r) s \<in> set ps} =
                 {first_season r + 1..2025} -
                 season_year ` {x \<in> set (seasonal_reports db). sr_grower x = grower_id r}) \<and>
            (\<forall>p\<in>set ps. \<exists>r\<in>set results. \<exists>s. p = lookup_payload (grower_id r) s)"
    by blast
next
  assume h: "distinct (map fst discovered) \<and> [] \<notin> fst ` set discovered"
  then have d: "distinct (map fst discovered)" and ne: "[] \<notin> fst ` set discovered" by simp_all
  from fetch_remaining_posts [OF d ne, of w tsc db] obtain ps where
    p: "t_posts (fst (snd (fetch_remaining_seasons w discovered (tsc, db)))) = t_posts tsc @ ps"
    and s: "set ps = (\<Union>d\<in>set discovered. lookup_payload (fst d) `
                        missing_seasons db (fst d) (fst (snd d)))"
    by blast
  from d have inj: "inj_on fst (set discovered)" by (simp add: distinct_map)
  have a: "\<forall>d\<in>set discovered.
      {s. lookup_payload (fst d) s \<in> set ps} =
        {fst (snd d) + 1..2025} -
        season_year ` {x \<in> set (seasonal_reports db). sr_grower x = fst d}"
    using per_identifier [OF inj s] by (simp add: missing_seasons_rows)
  have b: "\<forall>p\<in>set ps. \<exists>d\<in>set discovered. \<exists>s. p = lookup_payload (fst d) s"
    using s by auto
  from p a b show "\<exists>ps. t_posts (fst (snd (fetch_remaining_seasons w discovered (tsc, db)))) =
              t_posts tsc @ ps \<and>
            (\<forall>d\<in>set discovered.
               {s. lookup_payload (fst d) s \<in> set ps} =
                 {fst (snd d) + 1..2025} -
                 season_year ` {x \<in> set (seasonal_reports db). sr_grower x = fst d}) \<and>
            (\<forall>p\<in>set ps. \<exists>d\<in>set discovered. \<exists>s. p = lookup_payload (fst d) s)"
    by blast
next
  show "distinct (map grower_id
      (fst (discover_growers_batch w (filter keep (map grower_id_of [start_id..end_id])) sc)))"
    by (rule discover_growers_batch_distinct) (rule distinct_batch_ids)
next
  note t = discover_growers_threaded_ids [OF distinct_batch_ids, of w keep start_id end_id tsc]
  show "distinct (map fst
      (fst (discover_growers_threaded w (filter keep (map grower_id_of [start_id..end_id])) tsc)))"
    using t by (rule conjunct1)
  have "[] \<notin> set (filter keep (map grower_id_of [start_id..end_id]))"
    by (auto simp: grower_id_of_def)
  then show "[] \<notin> fst ` set
      (fst (discover_growers_threaded w (filter keep (map grower_id_of [start_id..end_id])) tsc))"
    using t by blast
next
  show "current_year (AsyncTIMBScraper_init user pass cfg) = 2025"
    by (simp add: AsyncTIMBScraper_init_def)
qed

theorem missing_periods_fetched_witness:
  "{s. lookup_payload ''V100003'' s \<in> set (posts (fst (snd
        (fetch_all_seasons_for_discovered_growers fixture_world
           [\<lparr>grower_id = ''V100003'', first_season = 2019, first_report_data = fixture_report\<rparr>]
           (fixture_scraper, half_store)))))} = {2020, 2022, 2023, 2024, 2025} \<and>
   {s. lookup_payload ''V100003'' s \<in> set (t_posts (fst (snd
        (fetch_remaining_seasons plain_world [(''V100003'', 2019, fixture_report)]
           (fixture_threaded_scraper, half_store)))))} = {2020, 2022, 2023, 2024, 2025}"
proof -
  let ?r = "\<lparr>grower_id = ''V100003'', first_season = 2019, first_report_data = fixture_report\<rparr>"
  have "season_year ` {x \<in> set (seasonal_reports half_store). sr_grower x = ''V100003''} =
      set (map season_year (filter (\<lambda>x. sr_grower x = ''V100003'') (seasonal_reports half_store)))"
    by simp
  also have "\<dots> = {2019, 2021}"
    by (simp add: half_store_def empty_store_def seasonal_report_row_def)
  finally have rows: "{2019 + 1..2025} -
      season_year ` {x \<in> set (seasonal_reports half_store). sr_grower x = ''V100003''} =
      {2020, 2022, 2023, 2024, 2025::int}"
    by auto
  have p0: "posts fixture_scraper = []" "t_posts fixture_threaded_scraper = []"
    by (simp_all add: fixture_defs fixture_threaded_scraper_def ThreadedTIMBScraper_init_def)
  have a: "{s. lookup_payload ''V100003'' s \<in> set (posts (fst (snd
        (fetch_all_seasons_for_discovered_growers fixture_world [?r]
           (fixture_scraper, half_store)))))} = {2020, 2022, 2023, 2024, 2025}"
    using missing_periods_fetched [where results = "[?r]" and w = fixture_world
        and sc = fixture_scraper and db = half_store, THEN conjunct1] rows p0
    by auto
  have b: "{s. lookup_payload ''V100003'' s \<in> set (t_posts (fst (snd
        (fetch_remaining_seasons plain_world [(''V100003'', 2019, fixture_report)]
           (fixture_threaded_scraper, half_store)))))} = {2020, 2022, 2023, 2024, 2025}"
    using missing_periods_fetched [where discovered = "[(''V100003'', 2019, fixture_report)]"
        and w = plain_world and tsc = fixture_threaded_scraper and db = half_store,
        THEN conjunct2, THEN conjunct1] rows p0
    by auto
  from a b show ?thesis ..
qed

section \<open>The sequential and the threaded command at two inputs\<close>

lemma handle_growers_upto:
  "a \<le> b \<Longrightarrow> handle_growers w [a..b] st =
     (case handle_grower w (grower_id_of a) st of
        (Inl e, st1) \<Rightarrow> (Inl e, st1)
      | (Inr u, st1) \<Rightarrow> handle_growers w [a + 1..b] st1)"
  by (subst upto_rec1) simp_all

lemma digits_100000: "digits_of_nat 100000 = ''100000''"
  by (simp add: digits_of_nat.simps)

lemma digits_100003: "digits_of_nat 100003 = ''100003''"
  by (simp add: digits_of_nat.simps)

text \<open>
  Claim C7 at a failing input of the sequential command (discover-growers.py): the portal
  has no record for V100000 in 2024, the first lookup of the run. \<^verbatim>\<open>fetch_report\<close> returns
  \<^verbatim>\<open>None\<close>, the probe subscripts it, and the \<^verbatim>\<open>TypeError\<close> ends the run after this one
  request: no other identifier of the range is processed and nothing is stored.
\<close>

theorem sequential_run_halts_on_absent:
  "fst (handle_sync absent_world (''operator'', ''secret'') empty_store) = Inl TypeError \<and>
   s_posts (fst (snd (handle_sync absent_world (''operator'', ''secret'') empty_store))) =
     [\<lparr>deleteprefix = ''V'', deletegnumber = ''100000'', deletesuffix = [], season_field = 2024\<rparr>] \<and>
   snd (snd (handle_sync absent_world (''operator'', ''secret'') empty_store)) = empty_store"
proof -
  let ?sc = "\<lparr>s_username = ''operator'', s_password = ''secret'',
              s_login_posts = [(''operator'', ''secret'')], s_posts = []\<rparr>"
  have login: "login_sync absent_world (TIMBScraper_init ''operator'' ''secret'') = (True, ?sc)"
    by (simp add: login_sync_def TIMBScraper_init_def absent_world_def)
  have le: "GROWER_ID_START \<le> GROWER_ID_END"
    by (simp add: GROWER_ID_START_def GROWER_ID_END_def)
  have first: "handle_grower absent_world (grower_id_of GROWER_ID_START) (?sc, empty_store) =
      (Inl TypeError,
       ?sc\<lparr>s_posts := [\<lparr>deleteprefix = ''V'', deletegnumber = ''100000'', deletesuffix = [],
                          season_field = 2024\<rparr>]\<rparr>,
       empty_store)"
    by (simp add: handle_grower_def get_grower_by_id_def empty_store_def grower_id_of_def str_int_def
        digits_100000 GROWER_ID_START_def SEASONS_def fetch_report_sync_def parse_report_sync_def absent_world_def Let_def)
  have "handle_sync absent_world (''operator'', ''secret'') empty_store =
      handle_growers absent_world [GROWER_ID_START..GROWER_ID_END] (?sc, empty_store)"
    by (simp add: handle_sync_def login)
  also have "\<dots> = (Inl TypeError,
       ?sc\<lparr>s_posts := [\<lparr>deleteprefix = ''V'', deletegnumber = ''100000'', deletesuffix = [],
                          season_field = 2024\<rparr>]\<rparr>,
       empty_store)"
    by (simp add: handle_growers_upto [OF le] first)
  finally show ?thesis by simp
qed


text \<open>
  Claim C9 at a failing input of the threaded command: whatever the operator supplies
  (here alice / wonderland), the login form of the run is posted with the two literals of
  the source.
\<close>

theorem threaded_run_posts_embedded_credentials:
  "t_login_posts (fst (snd (projr (handle_threaded absent_world (''alice'', ''wonderland'')
      fixture_options empty_store)))) = [(''DSAMAKANDE'', ''D@654321s'')]"
  by (simp add: handle_threaded_def login_threaded_def ThreadedTIMBScraper_init_def absent_world_def
      fixture_options_def py_range3_def process_batch_threaded_def get_existing_grower_ids_def
      empty_store_def grower_id_of_def str_int_def digits_100003
      discover_grower_first_season_threaded_def
      fetch_report_threaded_def parse_report_sync_def has_name_def Let_def)


section \<open>Properties of a batch and of a run\<close>


































end
